theory Spec2Isabelle
  imports Complex_Main "HOL-Library.AList"
begin

section \<open>Values of the Python program\<close>

text \<open>
  The client of \<open>src/PokeAlarm/LocationServices/GMaps.py\<close>: class \<open>GMaps\<close> with its
  rate-limited \<open>_make_request\<close> and the operations \<open>geocode\<close>, \<open>reverse_geocode\<close> and
  \<open>distance_matrix\<close>. Exceptions are values of a sum type, the object and the world
  around it (clock, transport, cache) are an explicit state, and what the world answers
  to one call is an argument of that call.
\<close>

text \<open>
  A parsed JSON document, as \<open>request.json()\<close> returns it: \<open>None\<close>, a bool, a number,
  a \<open>str\<close>, a \<open>list\<close> or a \<open>dict\<close> with \<open>str\<close> keys. A dict is an association list
  read by its first entry for a key. Numbers and clock readings are real numbers.
\<close>

datatype json =
    JNull
  | JBool bool
  | JNum real
  | JStr string
  | JArr "json list"
  | JObj "(string \<times> json) list"

text \<open>
  The exceptions that reach the \<open>except\<close> clauses of \<open>GMaps.py\<close>. \<open>HTTPError\<close> and
  \<open>Timeout\<close> are those of \<open>requests.exceptions\<close>; \<open>ValueError\<close> carries the literal
  text of its message and the value formatted into it, if any; \<open>OtherError\<close> is any
  further subclass of \<open>Exception\<close> the transport may raise (a connection error, an
  exhausted retry).
\<close>

datatype exn =
    HTTPError nat
  | Timeout
  | UserWarning string
  | ValueError string "json option"
  | TypeError
  | KeyError string
  | IndexError
  | AttributeError string
  | JSONDecodeError
  | IllegalMonthError nat
  | OverflowError
  | OtherError string

definition ebind :: "exn + 'a \<Rightarrow> ('a \<Rightarrow> exn + 'b) \<Rightarrow> exn + 'b" where
  "ebind m f = (case m of Inl e \<Rightarrow> Inl e | Inr x \<Rightarrow> f x)"

subsection \<open>Operations of Python on a JSON value\<close>

text \<open>\<open>x[k]\<close> with a \<open>str\<close> key: only a dict accepts it, and raises KeyError without it.\<close>

definition subscript :: "json \<Rightarrow> string \<Rightarrow> exn + json" where
  "subscript x k =
     (case x of
        JObj kvs \<Rightarrow> (case map_of kvs k of None \<Rightarrow> Inl (KeyError k) | Some v \<Rightarrow> Inr v)
      | _ \<Rightarrow> Inl TypeError)"

text \<open>\<open>x.get(k, default)\<close>: a method of dict alone.\<close>

definition py_get :: "json \<Rightarrow> string \<Rightarrow> json \<Rightarrow> exn + json" where
  "py_get x k dflt =
     (case x of
        JObj kvs \<Rightarrow> (case map_of kvs k of None \<Rightarrow> Inr dflt | Some v \<Rightarrow> Inr v)
      | _ \<Rightarrow> Inl (AttributeError ''get''))"

text \<open>\<open>len(x)\<close>.\<close>

definition py_len :: "json \<Rightarrow> exn + nat" where
  "py_len x =
     (case x of
        JArr xs \<Rightarrow> Inr (length xs)
      | JObj kvs \<Rightarrow> Inr (length kvs)
      | JStr s \<Rightarrow> Inr (length s)
      | _ \<Rightarrow> Inl TypeError)"

text \<open>\<open>x[0]\<close>: the first element of a list, the first character of a str; a dict with
  \<open>str\<close> keys has no key \<open>0\<close>.\<close>

definition subscript0 :: "json \<Rightarrow> exn + json" where
  "subscript0 x =
     (case x of
        JArr xs \<Rightarrow> (case xs of [] \<Rightarrow> Inl IndexError | y # _ \<Rightarrow> Inr y)
      | JStr s \<Rightarrow> (case s of [] \<Rightarrow> Inl IndexError | c # _ \<Rightarrow> Inr (JStr [c]))
      | JObj kvs \<Rightarrow> Inl (KeyError ''0'')
      | _ \<Rightarrow> Inl TypeError)"

text \<open>\<open>xs[0] if len(xs) > 0 else {}\<close>, lines 140, 194, 266 and 268.\<close>

definition first_or_empty :: "json \<Rightarrow> exn + json" where
  "first_or_empty x =
     ebind (py_len x) (\<lambda>n. if n > 0 then subscript0 x else Inr (JObj []))"

fun is_substring :: "string \<Rightarrow> string \<Rightarrow> bool" where
  "is_substring k [] = (k = [])"
| "is_substring k (c # cs) = (take (length k) (c # cs) = k \<or> is_substring k cs)"

text \<open>\<open>k in x\<close> for a \<open>str\<close> k: a key of a dict, an element of a list, a substring of a str.\<close>

definition py_in :: "string \<Rightarrow> json \<Rightarrow> exn + bool" where
  "py_in k x =
     (case x of
        JObj kvs \<Rightarrow> Inr (map_of kvs k \<noteq> None)
      | JArr xs \<Rightarrow> Inr (JStr k \<in> set xs)
      | JStr s \<Rightarrow> Inr (is_substring k s)
      | _ \<Rightarrow> Inl TypeError)"

text \<open>Iteration (\<open>for y in x\<close>): the elements of a list, the keys of a dict, the
  characters of a str.\<close>

definition py_iter :: "json \<Rightarrow> exn + json list" where
  "py_iter x =
     (case x of
        JArr xs \<Rightarrow> Inr xs
      | JObj kvs \<Rightarrow> Inr (map (\<lambda>kv. JStr (fst kv)) kvs)
      | JStr s \<Rightarrow> Inr (map (\<lambda>c. JStr [c]) s)
      | _ \<Rightarrow> Inl TypeError)"

text \<open>A list and a dict are unhashable: neither can be the key of a dict.\<close>

definition hashable :: "json \<Rightarrow> bool" where
  "hashable x = (case x of JArr _ \<Rightarrow> False | JObj _ \<Rightarrow> False | _ \<Rightarrow> True)"

text \<open>
  Modelled from the spec: the \<open>Unknown\<close> sentinels of \<open>PokeAlarm\<close> (imported at line 17,
  their class is not in this file), "a shared enumeration of unknown placeholder values
  at three severity tiers (EMPTY, SMALL, REGULAR)".
\<close>

datatype unknown = EMPTY | SMALL | REGULAR

text \<open>A field of a DTS holds a sentinel or a value taken from the response.\<close>

datatype dts_value = Unknown unknown | Val json

text \<open>
  The built-in functions of Python whose result the source uses and whose code is not
  part of it, taken as parameters: \<open>float(s)\<close> on a \<open>str\<close> (\<open>None\<close> where it raises
  ValueError), \<open>str(v)\<close> on a value that is not a \<open>str\<close>, and the product \<open>n * x\<close> of
  an \<open>int\<close> and a \<open>float\<close>, which is a float: the double nearest to the product of \<open>x\<close>
  and of \<open>n\<close> converted to a double (\<open>None\<close> where that conversion raises
  OverflowError).
\<close>

record python =
  float_of_str :: "string \<Rightarrow> real option"
  str_of :: "dts_value \<Rightarrow> string"
  int_times_float :: "int \<Rightarrow> real \<Rightarrow> real option"

text \<open>\<open>float(x)\<close>.\<close>

definition py_float :: "python \<Rightarrow> json \<Rightarrow> exn + real" where
  "py_float py x =
     (case x of
        JNum r \<Rightarrow> Inr r
      | JBool b \<Rightarrow> Inr (if b then 1 else 0)
      | JStr s \<Rightarrow> (case float_of_str py s of
                     None \<Rightarrow> Inl (ValueError ''could not convert string to float'' (Some x))
                   | Some r \<Rightarrow> Inr r)
      | _ \<Rightarrow> Inl TypeError)"

text \<open>A replacement field \<open>{v}\<close> of an f-string: a \<open>str\<close> as it is, anything else
  through \<open>str\<close>.\<close>

definition py_format :: "python \<Rightarrow> dts_value \<Rightarrow> string" where
  "py_format py v = (case v of Val (JStr s) \<Rightarrow> s | _ \<Rightarrow> str_of py v)"

text \<open>\<open>round(x)\<close> of Python 3: to the nearest integer, ties to the even one.\<close>

definition py_round :: "real \<Rightarrow> int" where
  "py_round x =
     (let f = \<lfloor>x\<rfloor>; d = x - of_int f
      in if d < 1 / 2 then f else if 1 / 2 < d then f + 1 else if even f then f else f + 1)"

fun str_nat :: "nat \<Rightarrow> string" where
  "str_nat n =
     (if n < 10 then [''0123456789'' ! n]
      else str_nat (n div 10) @ [''0123456789'' ! (n mod 10)])"

declare str_nat.simps [simp del]

text \<open>The format \<open>{x:.5f}\<close>: sign, integer part, and five decimals of the rounded value.\<close>

definition format_5f :: "real \<Rightarrow> string" where
  "format_5f x =
     (let n = nat (py_round (\<bar>x\<bar> * 100000));
          frac = str_nat (n mod 100000)
      in (if x < 0 then ''-'' else '''') @ str_nat (n div 100000) @ ''.''
         @ replicate (5 - length frac) (CHR ''0'') @ frac)"

text \<open>\<open>f"{latlng[0]:.5f},{latlng[1]:.5f}"\<close>, lines 181, 241 and 242.\<close>

definition format_latlng :: "real \<times> real \<Rightarrow> string" where
  "format_latlng p = format_5f (fst p) @ '','' @ format_5f (snd p)"

text \<open>\<open>str.lower\<close> on ASCII text.\<close>

definition lower_char :: "char \<Rightarrow> char" where
  "lower_char c =
     (let n = (of_char c :: nat) in if 65 \<le> n \<and> n \<le> 90 then char_of (n + 32) else c)"

definition lower :: "string \<Rightarrow> string" where
  "lower s = map lower_char s"

section \<open>The state of a \<open>GMaps\<close> object and of its collaborators\<close>

text \<open>\<open>_reverse_geocode_defaults\<close> and the DTS of \<open>reverse_geocode\<close>: a dict with these
  eleven keys.\<close>

record address_details =
  street_num :: dts_value
  street :: dts_value
  address :: dts_value
  address_eu :: dts_value
  postal :: dts_value
  neighborhood :: dts_value
  sublocality :: dts_value
  city :: dts_value
  county :: dts_value
  state :: dts_value
  country :: dts_value

text \<open>The DTS of \<open>distance_matrix\<close>: a dict whose two keys depend on the mode.\<close>

type_synonym travel_estimate = "(string \<times> dts_value) list"

text \<open>
  Modelled from the spec: the cache object handed to \<open>__init__\<close> (its class is not in
  this file), "\<open>get(key) -> value | absent\<close>, \<open>put(key, value, expiresAt)\<close>", one store
  for \<open>geocode\<close> and one for \<open>reverse_geocode\<close>, each entry with its expiration.
\<close>

record cache =
  geocode_entries :: "string \<rightharpoonup> ((real \<times> real) \<times> real)"
  reverse_entries :: "string \<rightharpoonup> (address_details \<times> real)"

definition cache_geocode_get :: "cache \<Rightarrow> string \<Rightarrow> (real \<times> real) option" where
  "cache_geocode_get c k = map_option fst (geocode_entries c k)"

definition cache_geocode_put :: "cache \<Rightarrow> string \<Rightarrow> real \<times> real \<Rightarrow> real \<Rightarrow> cache" where
  "cache_geocode_put c k v expires = c\<lparr>geocode_entries := (geocode_entries c)(k \<mapsto> (v, expires))\<rparr>"

definition cache_reverse_get :: "cache \<Rightarrow> string \<Rightarrow> address_details option" where
  "cache_reverse_get c k = map_option fst (reverse_entries c k)"

definition cache_reverse_put :: "cache \<Rightarrow> string \<Rightarrow> address_details \<Rightarrow> real \<Rightarrow> cache" where
  "cache_reverse_put c k v expires = c\<lparr>reverse_entries := (reverse_entries c)(k \<mapsto> (v, expires))\<rparr>"

text \<open>A request handed to the session at line 102, with the reading of the clock that
  line 101 appended to the window.\<close>

record request =
  sent_at :: real
  url :: string
  params :: "(string \<times> string) list"

text \<open>
  The attributes of \<open>self\<close> set by \<open>__init__\<close> (\<open>_key\<close>, \<open>_max_fuzz_days\<close>, \<open>_cache\<close>,
  \<open>_window\<close>, \<open>_dm_hist\<close>), and the world: \<open>clock\<close> is the time in seconds that
  \<open>time.time()\<close> reads, \<open>sent\<close> the requests the session has been given, oldest first.
\<close>

record gmaps =
  key :: string
  max_fuzz_days :: int
  cache :: cache
  window :: "real list"
  dm_hist :: "string \<rightharpoonup> travel_estimate"
  clock :: real
  sent :: "request list"

definition TRAVEL_MODES :: "string set" where
  "TRAVEL_MODES = {''walking'', ''biking'', ''driving'', ''transit''}"

definition queries_per_second :: nat where
  "queries_per_second = 50"

text \<open>\<open>__init__\<close>: an empty window, and a memo that maps each travel mode to an empty
  dict (line 47).\<close>

definition init :: "string \<Rightarrow> int \<Rightarrow> cache \<Rightarrow> real \<Rightarrow> gmaps" where
  "init api_key cache_fuzz_days c now =
     \<lparr>key = api_key, max_fuzz_days = cache_fuzz_days, cache = c, window = [],
      dm_hist = (\<lambda>k. if k \<in> TRAVEL_MODES then Some [] else None),
      clock = now, sent = []\<rparr>"

text \<open>
  What the session answers: it raises, or it returns a response with a status code and
  a body; \<open>json_body\<close> is \<open>None\<close> when the body is not JSON, where \<open>request.json()\<close>
  raises.
\<close>

record response =
  status_code :: nat
  json_body :: "json option"

datatype transport = Raises exn | Responds response

text \<open>
  A \<open>datetime\<close>: the two attributes that \<open>expiration\<close> reads, and its place on the
  time line in days, which is the ordinal of its date (1 for 0001-01-01, as
  \<open>date.toordinal\<close> counts) plus the time of day as a fraction of a day.
\<close>

record datetime =
  year :: int
  month :: nat
  instant :: real

text \<open>
  What the world contributes to one call of an operation: the time that passes before
  the call reads the clock (\<open>lag_check\<close>), the time that passes between the end of the
  rate limiter and line 101, oversleeping included (\<open>lag_send\<close>), the answer of the
  session, and for \<open>expiration\<close> the value of \<open>datetime.utcnow()\<close> and of
  \<open>random.random()\<close>.
\<close>

record env =
  lag_check :: real
  lag_send :: real
  reply :: transport
  utcnow :: datetime
  random :: real

section \<open>\<open>expiration\<close>\<close>

text \<open>\<open>calendar.isleap\<close> and the second component of \<open>calendar.monthrange\<close>, which
  raises for a month outside 1..12.\<close>

definition isleap :: "int \<Rightarrow> bool" where
  "isleap y = (y mod 4 = 0 \<and> (y mod 100 \<noteq> 0 \<or> y mod 400 = 0))"

definition mdays :: "nat list" where
  "mdays = [0, 31, 28, 31, 30, 31, 30, 31, 31, 30, 31, 30, 31]"

definition monthrange :: "int \<Rightarrow> nat \<Rightarrow> exn + nat" where
  "monthrange y m =
     (if \<not> (1 \<le> m \<and> m \<le> 12) then Inl (IllegalMonthError m)
      else Inr (mdays ! m + (if m = 2 \<and> isleap y then 1 else 0)))"

text \<open>\<open>timedelta(days=n)\<close>: a \<open>timedelta\<close> holds at most 999999999 days, in either
  direction.\<close>

definition timedelta :: "int \<Rightarrow> exn + int" where
  "timedelta n = (if \<bar>n\<bar> > 999999999 then Inl OverflowError else Inr n)"

text \<open>The ordinal of 9999-12-31, the last date of \<open>datetime\<close>.\<close>

definition max_ordinal :: int where
  "max_ordinal = 3652059"

text \<open>\<open>now + delta\<close> for a \<open>timedelta\<close> of whole days: the time of day stays, the date
  moves, and a date before the year 1 or after the year 9999 raises OverflowError. The
  result is given by its place on the time line.\<close>

definition datetime_add :: "datetime \<Rightarrow> int \<Rightarrow> exn + real" where
  "datetime_add now n =
     (let ordinal = \<lfloor>instant now\<rfloor> + n
      in if 1 \<le> ordinal \<and> ordinal \<le> max_ordinal then Inr (instant now + of_int n)
         else Inl OverflowError)"

text \<open>Lines 49 to 53.\<close>

definition expiration :: "python \<Rightarrow> env \<Rightarrow> gmaps \<Rightarrow> exn + real" where
  "expiration py e s =
     (let now = utcnow e
      in ebind (monthrange (year now) (month now)) (\<lambda>month_days.
         ebind (case int_times_float py (max_fuzz_days s) (random e) of
                  None \<Rightarrow> Inl OverflowError
                | Some product \<Rightarrow> Inr (py_round product)) (\<lambda>fuzz_days.
         ebind (timedelta (int month_days + fuzz_days)) (\<lambda>delta.
           datetime_add now delta))))"

section \<open>\<open>_make_request\<close>\<close>

text \<open>Lines 84 to 89: the argument of \<open>time.sleep\<close>, when the limiter sleeps.\<close>

definition sleep_for :: "real list \<Rightarrow> real \<Rightarrow> real option" where
  "sleep_for w now =
     (if length w = queries_per_second
      then (let elapsed_time = now - w ! 0
            in if elapsed_time < 1 then Some (1 - elapsed_time) else None)
      else None)"

text \<open>\<open>append\<close> on a \<open>deque(maxlen=50)\<close>: a full deque drops its oldest element.\<close>

definition deque_append :: "real list \<Rightarrow> real \<Rightarrow> real list" where
  "deque_append w x = (if length w = queries_per_second then tl w @ [x] else w @ [x])"

text \<open>Lines 117 to 123.\<close>

definition classify :: "json \<Rightarrow> exn + json" where
  "classify body =
     ebind (subscript body ''status'') (\<lambda>status.
       if status = JStr ''OK'' \<or> status = JStr ''ZERO_RESULTS'' then Inr body
       else if status = JStr ''OVER_QUERY_LIMIT'' then Inl (UserWarning ''API Quota exceeded.'')
       else Inl (ValueError (''Unexpected response status:'' @ [CHR 0x0A] @ '' '') (Some body)))"

text \<open>\<open>request.ok\<close>: \<open>raise_for_status\<close> raises for the codes 400 to 599.\<close>

definition ok :: "response \<Rightarrow> bool" where
  "ok r = (\<not> (400 \<le> status_code r \<and> status_code r < 600))"

text \<open>Lines 104 to 123: \<open>request.json()\<close> is evaluated for the debug log before
  \<open>raise_for_status\<close>.\<close>

definition receive :: "response \<Rightarrow> exn + json" where
  "receive r =
     (if \<not> ok r
      then (case json_body r of
              None \<Rightarrow> Inl JSONDecodeError
            | Some _ \<Rightarrow> Inl (HTTPError (status_code r)))
      else (case json_body r of
              None \<Rightarrow> Inl JSONDecodeError
            | Some body \<Rightarrow> classify body))"

text \<open>\<open>_make_request(service, params)\<close>: the rate limiter, the request, the answer.\<close>

definition make_request ::
  "env \<Rightarrow> string \<Rightarrow> (string \<times> string) list option \<Rightarrow> gmaps \<Rightarrow> (exn + json) \<times> gmaps" where
  "make_request e service ps s =
     (let t0 = clock s + lag_check e;
          t1 = (case sleep_for (window s) t0 of None \<Rightarrow> t0 | Some d \<Rightarrow> t0 + d);
          target = ''https://maps.googleapis.com/maps/api/'' @ service @ ''/json'';
          ps1 = (case ps of None \<Rightarrow> [] | Some p \<Rightarrow> p);
          ps2 = AList.update ''key'' (key s) ps1;
          t2 = t1 + lag_send e;
          s' = s\<lparr>window := deque_append (window s) t2, clock := t2,
                 sent := sent s @ [\<lparr>sent_at = t2, url = target, params = ps2\<rparr>]\<rparr>
      in (case reply e of
            Raises x \<Rightarrow> (Inl x, s')
          | Responds r \<Rightarrow> (receive r, s')))"

section \<open>The \<open>except\<close> clauses\<close>

text \<open>
  \<open>e.message\<close>, lines 148, 150, 220, 222, 274 and 276. The f-strings of the file make
  it Python 3.6 or later, where no exception has an attribute \<open>message\<close> (it left
  \<open>BaseException\<close> with Python 3.0, and the exceptions of \<open>requests\<close> define none): the
  attribute lookup raises AttributeError.
\<close>

definition exn_message :: "exn \<Rightarrow> exn + string" where
  "exn_message e = Inl (AttributeError ''message'')"

text \<open>
  The four \<open>except\<close> clauses of an operation, in the order of the source; they differ
  between the operations in the text they log alone. The result is the exception that
  leaves the clause, \<open>None\<close> when the clause ends and the operation goes on to its
  \<open>return\<close>.
\<close>

definition except :: "exn \<Rightarrow> exn option" where
  "except x =
     (case x of
        HTTPError _ \<Rightarrow> (case exn_message x of Inl a \<Rightarrow> Some a | Inr _ \<Rightarrow> None)
      | Timeout \<Rightarrow> (case exn_message x of Inl a \<Rightarrow> Some a | Inr _ \<Rightarrow> None)
      | UserWarning _ \<Rightarrow> None
      | _ \<Rightarrow> None)"

text \<open>After the \<open>try\<close> statement: \<open>return v\<close>, unless an \<open>except\<close> clause raised.\<close>

definition finish :: "exn option \<Rightarrow> 'a \<Rightarrow> gmaps \<Rightarrow> (exn + 'a) \<times> gmaps" where
  "finish raised v s =
     (case raised of
        None \<Rightarrow> (Inr v, s)
      | Some x \<Rightarrow> (case except x of None \<Rightarrow> (Inr v, s) | Some y \<Rightarrow> (Inl y, s)))"

section \<open>\<open>geocode\<close>\<close>

text \<open>Lines 139 to 144: the pair of floats, or \<open>None\<close> when \<open>lat\<close> or \<open>lng\<close> is not
  there.\<close>

definition geocode_extract :: "python \<Rightarrow> json \<Rightarrow> exn + (real \<times> real) option" where
  "geocode_extract py body =
     ebind (py_get body ''results'' (JArr [])) (\<lambda>r1.
     ebind (first_or_empty r1) (\<lambda>r2.
     ebind (py_get r2 ''geometry'' (JObj [])) (\<lambda>r3.
     ebind (py_get r3 ''location'' (JObj [])) (\<lambda>r4.
     ebind (py_in ''lat'' r4) (\<lambda>has_lat.
     ebind (if has_lat then py_in ''lng'' r4 else Inr False) (\<lambda>has_both.
       if has_both
       then ebind (ebind (subscript r4 ''lat'') (py_float py)) (\<lambda>la.
            ebind (ebind (subscript r4 ''lng'') (py_float py)) (\<lambda>ln.
              Inr (Some (la, ln))))
       else Inr None))))))"

text \<open>The body of the \<open>try\<close>, lines 135 to 146: the exception that ended it, if any, the
  value of \<open>latlng\<close> at that point, and the state.\<close>

definition geocode_try ::
  "python \<Rightarrow> env \<Rightarrow> string \<Rightarrow> string \<Rightarrow> gmaps \<Rightarrow> exn option \<times> (real \<times> real) option \<times> gmaps" where
  "geocode_try py e addr language s =
     (case make_request e ''geocode'' (Some [(''address'', addr), (''language'', language)]) s of
        (Inl x, s1) \<Rightarrow> (Some x, None, s1)
      | (Inr body, s1) \<Rightarrow>
          (case geocode_extract py body of
             Inl x \<Rightarrow> (Some x, None, s1)
           | Inr None \<Rightarrow> (None, None, s1)
           | Inr (Some latlng) \<Rightarrow>
               (case expiration py e s1 of
                  Inl x \<Rightarrow> (Some x, Some latlng, s1)
                | Inr expires \<Rightarrow>
                    (None, Some latlng,
                     s1\<lparr>cache := cache_geocode_put (cache s1) addr latlng expires\<rparr>))))"

text \<open>Lines 126 to 161.\<close>

definition geocode ::
  "python \<Rightarrow> env \<Rightarrow> string \<Rightarrow> string \<Rightarrow> gmaps \<Rightarrow> (exn + (real \<times> real) option) \<times> gmaps" where
  "geocode py e addr0 language s =
     (let addr = lower addr0
      in case cache_geocode_get (cache s) addr of
           Some latlng \<Rightarrow> (Inr (Some latlng), s)
         | None \<Rightarrow>
             (case geocode_try py e addr language s of
                (raised, latlng, s') \<Rightarrow> finish raised latlng s'))"

section \<open>\<open>reverse_geocode\<close>\<close>

definition reverse_geocode_defaults :: address_details where
  "reverse_geocode_defaults =
     \<lparr>street_num = Unknown SMALL, street = Unknown REGULAR, address = Unknown REGULAR,
      address_eu = Unknown REGULAR, postal = Unknown REGULAR,
      neighborhood = Unknown REGULAR, sublocality = Unknown REGULAR,
      city = Unknown REGULAR, county = Unknown REGULAR, state = Unknown REGULAR,
      country = Unknown REGULAR\<rparr>"

text \<open>Lines 197 and 198, the inner loop: the right-hand side \<open>item["short_name"]\<close> is
  evaluated before the key is hashed. \<open>details\<close> is read with \<open>str\<close> keys alone
  (lines 202 to 215), which no key of another type equals.\<close>

fun flatten_types :: "json \<Rightarrow> json list \<Rightarrow> (json \<rightharpoonup> json) \<Rightarrow> exn + (json \<rightharpoonup> json)" where
  "flatten_types item [] details = Inr details"
| "flatten_types item (category # cs) details =
     (case subscript item ''short_name'' of
        Inl x \<Rightarrow> Inl x
      | Inr v \<Rightarrow>
          if hashable category then flatten_types item cs (details(category \<mapsto> v))
          else Inl TypeError)"

text \<open>Lines 196 to 198, the outer loop over the address components.\<close>

fun flatten_components :: "json list \<Rightarrow> (json \<rightharpoonup> json) \<Rightarrow> exn + (json \<rightharpoonup> json)" where
  "flatten_components [] details = Inr details"
| "flatten_components (item # items) details =
     (case ebind (ebind (subscript item ''types'') py_iter) (\<lambda>cs. flatten_types item cs details) of
        Inl x \<Rightarrow> Inl x
      | Inr details' \<Rightarrow> flatten_components items details')"

text \<open>Lines 193 to 198: \<open>details\<close>, from the body of the response.\<close>

definition reverse_details :: "json \<Rightarrow> exn + (json \<rightharpoonup> json)" where
  "reverse_details body =
     ebind (py_get body ''results'' (JArr [])) (\<lambda>r1.
     ebind (first_or_empty r1) (\<lambda>r2.
     ebind (py_get r2 ''address_components'' JNull) (\<lambda>r3.
     ebind (py_iter r3) (\<lambda>items. flatten_components items Map.empty))))"

text \<open>\<open>details.get(k, default)\<close>.\<close>

definition details_get :: "(json \<rightharpoonup> json) \<Rightarrow> string \<Rightarrow> dts_value \<Rightarrow> dts_value" where
  "details_get details k dflt = (case details (JStr k) of None \<Rightarrow> dflt | Some v \<Rightarrow> Val v)"

text \<open>Lines 202 to 215, one assignment after the other.\<close>

definition populate :: "python \<Rightarrow> (json \<rightharpoonup> json) \<Rightarrow> address_details \<Rightarrow> address_details" where
  "populate py details dts =
     (let d1 = dts\<lparr>street_num := details_get details ''street_number'' (Unknown EMPTY)\<rparr>;
          d2 = d1\<lparr>street := details_get details ''route'' (Unknown EMPTY)\<rparr>;
          d3 = d2\<lparr>address :=
                 Val (JStr (py_format py (street_num d2) @ '' '' @ py_format py (street d2)))\<rparr>;
          d4 = d3\<lparr>address_eu :=
                 Val (JStr (py_format py (street d3) @ '' '' @ py_format py (street_num d3)))\<rparr>;
          d5 = d4\<lparr>postal := details_get details ''postal_code'' (Unknown REGULAR)\<rparr>;
          d6 = d5\<lparr>neighborhood := details_get details ''neighborhood'' (Unknown REGULAR)\<rparr>;
          d7 = d6\<lparr>sublocality := details_get details ''sublocality'' (Unknown REGULAR)\<rparr>;
          d8 = d7\<lparr>city := details_get details ''locality''
                         (details_get details ''postal_town'' (Unknown REGULAR))\<rparr>;
          d9 = d8\<lparr>county := details_get details ''administrative_area_level_2'' (Unknown REGULAR)\<rparr>;
          d10 = d9\<lparr>state := details_get details ''administrative_area_level_1'' (Unknown REGULAR)\<rparr>
      in d10\<lparr>country := details_get details ''country'' (Unknown REGULAR)\<rparr>)"

text \<open>The body of the \<open>try\<close>, lines 189 to 218: the exception that ended it, if any, the
  value of \<open>dts\<close> at that point, and the state.\<close>

definition reverse_geocode_try ::
  "python \<Rightarrow> env \<Rightarrow> string \<Rightarrow> string \<Rightarrow> address_details \<Rightarrow> gmaps
     \<Rightarrow> exn option \<times> address_details \<times> gmaps" where
  "reverse_geocode_try py e latlng language dts s =
     (case make_request e ''geocode'' (Some [(''latlng'', latlng), (''language'', language)]) s of
        (Inl x, s1) \<Rightarrow> (Some x, dts, s1)
      | (Inr body, s1) \<Rightarrow>
          (case reverse_details body of
             Inl x \<Rightarrow> (Some x, dts, s1)
           | Inr details \<Rightarrow>
               (let dts' = populate py details dts
                in case expiration py e s1 of
                     Inl x \<Rightarrow> (Some x, dts', s1)
                   | Inr expires \<Rightarrow>
                       (None, dts',
                        s1\<lparr>cache := cache_reverse_put (cache s1) latlng dts' expires\<rparr>))))"

text \<open>Lines 178 to 233.\<close>

definition reverse_geocode ::
  "python \<Rightarrow> env \<Rightarrow> real \<times> real \<Rightarrow> string \<Rightarrow> gmaps \<Rightarrow> (exn + address_details) \<times> gmaps" where
  "reverse_geocode py e latlng0 language s =
     (let latlng = format_latlng latlng0
      in case cache_reverse_get (cache s) latlng of
           Some dts \<Rightarrow> (Inr dts, s)
         | None \<Rightarrow>
             (case reverse_geocode_try py e latlng language reverse_geocode_defaults s of
                (raised, dts, s') \<Rightarrow> finish raised dts s'))"

section \<open>\<open>distance_matrix\<close>\<close>

text \<open>\<open>x.get("text", Unknown.REGULAR)\<close>, lines 271 and 272.\<close>

definition get_text :: "json \<Rightarrow> exn + dts_value" where
  "get_text x =
     (case x of
        JObj kvs \<Rightarrow> (case map_of kvs ''text'' of None \<Rightarrow> Inr (Unknown REGULAR) | Some v \<Rightarrow> Inr (Val v))
      | _ \<Rightarrow> Inl (AttributeError ''get''))"

text \<open>Lines 265 to 268: \<open>rows[0].elements[0]\<close>, an empty dict where a list is empty.\<close>

definition first_element :: "json \<Rightarrow> exn + json" where
  "first_element body =
     ebind (py_get body ''rows'' (JArr [])) (\<lambda>r1.
     ebind (first_or_empty r1) (\<lambda>r2.
     ebind (py_get r2 ''elements'' (JArr [])) first_or_empty))"

text \<open>The body of the \<open>try\<close>, lines 254 to 272.\<close>

definition distance_matrix_try ::
  "env \<Rightarrow> string \<Rightarrow> string \<Rightarrow> string \<Rightarrow> string \<Rightarrow> string \<Rightarrow> travel_estimate \<Rightarrow> gmaps
     \<Rightarrow> exn option \<times> travel_estimate \<times> gmaps" where
  "distance_matrix_try e mode origin dest lang units dts s =
     (let dist_key = mode @ ''_distance''; dur_key = mode @ ''_duration'';
          ps = [(''mode'', mode), (''origins'', origin), (''destinations'', dest),
                (''language'', lang), (''units'', units)]
      in case make_request e ''distancematrix'' (Some ps) s of
           (Inl x, s1) \<Rightarrow> (Some x, dts, s1)
         | (Inr body, s1) \<Rightarrow>
             (case first_element body of
                Inl x \<Rightarrow> (Some x, dts, s1)
              | Inr el \<Rightarrow>
                  (case ebind (py_get el ''distance'' (JObj [])) get_text of
                     Inl x \<Rightarrow> (Some x, dts, s1)
                   | Inr dist_text \<Rightarrow>
                       (let dts1 = AList.update dist_key dist_text dts
                        in case ebind (py_get el ''duration'' (JObj [])) get_text of
                             Inl x \<Rightarrow> (Some x, dts1, s1)
                           | Inr dur_text \<Rightarrow> (None, AList.update dur_key dur_text dts1, s1)))))"

text \<open>Lines 236 to 287. Nothing assigns to \<open>_dm_hist\<close> after \<open>__init__\<close>.\<close>

definition distance_matrix ::
  "env \<Rightarrow> string \<Rightarrow> real \<times> real \<Rightarrow> real \<times> real \<Rightarrow> string \<Rightarrow> string \<Rightarrow> gmaps
     \<Rightarrow> (exn + travel_estimate) \<times> gmaps" where
  "distance_matrix e mode origin0 dest0 lang units s =
     (if mode \<notin> TRAVEL_MODES
      then (Inl (ValueError (''DM doesn't support mode '' @ [CHR 0x27] @ mode @ [CHR 0x27] @ ''.'') None), s)
      else
        (let origin = format_latlng origin0;
             dest = format_latlng dest0;
             k = origin @ '':'' @ dest
         in case dm_hist s k of
              Some v \<Rightarrow> (Inr v, s)
            | None \<Rightarrow>
                (let dist_key = mode @ ''_distance''; dur_key = mode @ ''_duration'';
                     dts = [(dist_key, Unknown REGULAR), (dur_key, Unknown REGULAR)]
                 in case distance_matrix_try e mode origin dest lang units dts s of
                      (raised, dts', s') \<Rightarrow> finish raised dts' s')))"

section \<open>Runs of the request executor\<close>

text \<open>One call of \<open>_make_request\<close> after the other, each with what the world contributes
  to it; \<open>dispatches\<close> are the clock readings of line 101, oldest first.\<close>

fun requests :: "(env \<times> string \<times> (string \<times> string) list option) list \<Rightarrow> gmaps \<Rightarrow> gmaps" where
  "requests [] s = s"
| "requests ((e, service, ps) # calls) s = requests calls (snd (make_request e service ps s))"

definition dispatches :: "gmaps \<Rightarrow> real list" where
  "dispatches s = map sent_at (sent s)"

text \<open>A dispatch and the one \<open>queries_per_second\<close> dispatches later are a second apart or
  more.\<close>

definition spaced :: "real list \<Rightarrow> bool" where
  "spaced ts =
     (\<forall>i. i + queries_per_second < length ts \<longrightarrow> ts ! i + 1 \<le> ts ! (i + queries_per_second))"

text \<open>What every run keeps: the dispatches are in order and not after the clock, the
  window holds the last \<open>queries_per_second\<close> of them, and they are spaced.\<close>

definition limiter_inv :: "gmaps \<Rightarrow> bool" where
  "limiter_inv s =
     (let ts = dispatches s
      in sorted ts \<and> (\<forall>x \<in> set ts. x \<le> clock s)
         \<and> window s = drop (length ts - queries_per_second) ts \<and> spaced ts)"

section \<open>The words of the specification\<close>




text \<open>
  "\<open>results[0].geometry.location.{lat,lng}\<close>": the value at that path of the body, absent
  when a level is, and whether it is a dict with both keys.
\<close>

definition location :: "json \<Rightarrow> json option" where
  "location body =
     (case body of
        JObj kvs \<Rightarrow>
          (case map_of kvs ''results'' of
             Some (JArr (JObj r # _)) \<Rightarrow>
               (case map_of r ''geometry'' of
                  Some (JObj g) \<Rightarrow> map_of g ''location''
                | _ \<Rightarrow> None)
           | _ \<Rightarrow> None)
      | _ \<Rightarrow> None)"

definition has_lat_lng :: "json \<Rightarrow> bool" where
  "has_lat_lng body =
     (case location body of
        Some (JObj l) \<Rightarrow> map_of l ''lat'' \<noteq> None \<and> map_of l ''lng'' \<noteq> None
      | _ \<Rightarrow> False)"

text \<open>A computation that raises nothing but what the \<open>except\<close> clauses absorb.\<close>

definition plain :: "exn + 'a \<Rightarrow> bool" where
  "plain m = (\<forall>x. m = Inl x \<longrightarrow> except x = None)"

section \<open>Concrete inputs\<close>

text \<open>
  An interpreter for the evaluations below: \<open>str\<close> gives the sentinels the text they
  have in \<open>PokeAlarm\<close> (\<open>EMPTY\<close> is blank, as the specification says) and is not asked
  for any other value there; \<open>float\<close> is not asked for a \<open>str\<close>; the product of an
  \<open>int\<close> and a \<open>float\<close> is the exact one, which is a double for the factors multiplied
  there (7 and 6000000 by one half).
\<close>

fun str0 :: "dts_value \<Rightarrow> string" where
  "str0 (Unknown EMPTY) = []"
| "str0 (Unknown SMALL) = ''???''"
| "str0 (Unknown REGULAR) = ''unknown''"
| "str0 (Val v) = []"

definition python0 :: python where
  "python0 =
     \<lparr>float_of_str = (\<lambda>s. None), str_of = str0,
      int_times_float = (\<lambda>n x. Some (of_int n * x))\<rparr>"

definition cache0 :: cache where
  "cache0 = \<lparr>geocode_entries = Map.empty, reverse_entries = Map.empty\<rparr>"

text \<open>A fresh object at time 0, with the key \<open>K\<close> and a fuzz of seven days.\<close>

definition gmaps0 :: gmaps where
  "gmaps0 = init ''K'' 7 cache0 0"

text \<open>A world that takes \<open>lag\<close> seconds before the call reads the clock and answers
  \<open>r\<close>, at midnight of 2024-02-17 (the ordinal 738933), with the random draw one
  half.\<close>

definition env0 :: "real \<Rightarrow> transport \<Rightarrow> env" where
  "env0 lag r =
     \<lparr>lag_check = lag, lag_send = 0, reply = r,
      utcnow = \<lparr>year = 2024, month = 2, instant = 738933\<rparr>, random = 1 / 2\<rparr>"


definition respond :: "nat \<Rightarrow> json \<Rightarrow> transport" where
  "respond code body = Responds \<lparr>status_code = code, json_body = Some body\<rparr>"

definition body_ok :: json where
  "body_ok = JObj [(''status'', JStr ''OK''), (''results'', JArr [])]"

definition body_zero_results :: json where
  "body_zero_results = JObj [(''status'', JStr ''ZERO_RESULTS''), (''results'', JArr [])]"

definition body_over_limit :: json where
  "body_over_limit = JObj [(''status'', JStr ''OVER_QUERY_LIMIT'')]"

definition body_denied :: json where
  "body_denied = JObj [(''status'', JStr ''REQUEST_DENIED''), (''error_message'', JStr ''denied'')]"

text \<open>The response of the scenario of the specification: a route, no street number.\<close>

definition body_amphitheatre :: json where
  "body_amphitheatre =
     JObj [(''status'', JStr ''OK''),
           (''results'', JArr [JObj [(''address_components'', JArr [
              JObj [(''types'', JArr [JStr ''route'']), (''short_name'', JStr ''Amphitheatre Pkwy'')],
              JObj [(''types'', JArr [JStr ''locality'']), (''short_name'', JStr ''Mountain View'')],
              JObj [(''types'', JArr [JStr ''administrative_area_level_1'']), (''short_name'', JStr ''CA'')],
              JObj [(''types'', JArr [JStr ''country'']), (''short_name'', JStr ''US'')]])]])]"

definition body_located :: json where
  "body_located =
     JObj [(''status'', JStr ''OK''),
           (''results'', JArr [JObj [(''geometry'',
              JObj [(''location'', JObj [(''lat'', JNum 37.422), (''lng'', JNum (-122.084))])])]])]"

definition body_distance :: json where
  "body_distance =
     JObj [(''status'', JStr ''OK''),
           (''rows'', JArr [JObj [(''elements'', JArr [
              JObj [(''distance'', JObj [(''text'', JStr ''5.2 km'')]),
                    (''duration'', JObj [(''text'', JStr ''9 mins'')])]])]])]"

text \<open>The burst of the specification: fifty-one requests, one every ten milliseconds.\<close>

definition burst :: "(env \<times> string \<times> (string \<times> string) list option) list" where
  "burst = replicate 51 (env0 (1 / 100) (respond 200 body_ok), ''geocode'', None)"

text \<open>The state after a first, successful call of \<open>distance_matrix\<close> on a fresh object.\<close>

definition after_driving :: gmaps where
  "after_driving =
     snd (distance_matrix (env0 0 (respond 200 body_distance)) ''driving'' (37, -122) (37.1, -122.1)
            ''en'' ''metric'' gmaps0)"

section \<open>The request executor\<close>

lemma make_request_result:
  "fst (make_request e service ps s) = (case reply e of Raises x \<Rightarrow> Inl x | Responds r \<Rightarrow> receive r)"
  by (simp add: make_request_def Let_def split: transport.split)

lemma make_request_frame:
  "cache (snd (make_request e service ps s)) = cache s"
  "dm_hist (snd (make_request e service ps s)) = dm_hist s"
  "max_fuzz_days (snd (make_request e service ps s)) = max_fuzz_days s"
  "length (sent (snd (make_request e service ps s))) = Suc (length (sent s))"
  by (simp_all add: make_request_def Let_def split: transport.split)

lemma except_absorbs: "except x = None \<longleftrightarrow> (\<forall>c. x \<noteq> HTTPError c) \<and> x \<noteq> Timeout"
  by (cases x) (simp_all add: except_def exn_message_def)

lemma except_raises: "except x = Some y \<Longrightarrow> y = AttributeError ''message''"
  by (cases x) (simp_all add: except_def exn_message_def)

text \<open>
  Claim C3. When the session answers with a successful HTTP status and a JSON body
  that has a \<open>status\<close> field, \<open>_make_request\<close> returns the body for the status
  \<open>OK\<close> or \<open>ZERO_RESULTS\<close>, raises the quota warning (\<open>UserWarning\<close>) for
  \<open>OVER_QUERY_LIMIT\<close>, and for any other value of the field raises the \<open>ValueError\<close>
  of an unexpected response, which carries the whole body.
\<close>

theorem make_request_status:
  assumes "reply e = Responds r" and "ok r" and "json_body r = Some body"
    and "subscript body ''status'' = Inr status"
  shows "(status = JStr ''OK'' \<or> status = JStr ''ZERO_RESULTS''
            \<longrightarrow> fst (make_request e service ps s) = Inr body)
       \<and> (status = JStr ''OVER_QUERY_LIMIT''
            \<longrightarrow> fst (make_request e service ps s) = Inl (UserWarning ''API Quota exceeded.''))
       \<and> (status \<noteq> JStr ''OK'' \<and> status \<noteq> JStr ''ZERO_RESULTS'' \<and> status \<noteq> JStr ''OVER_QUERY_LIMIT''
            \<longrightarrow> fst (make_request e service ps s)
                = Inl (ValueError (''Unexpected response status:'' @ [CHR 0x0A] @ '' '') (Some body)))"
  using assms by (simp add: make_request_result receive_def classify_def ebind_def)

theorem make_request_status_witness:
  "fst (make_request (env0 0 (respond 200 body_zero_results)) ''geocode'' None gmaps0) = Inr body_zero_results
   \<and> fst (make_request (env0 0 (respond 200 body_over_limit)) ''geocode'' None gmaps0)
       = Inl (UserWarning ''API Quota exceeded.'')
   \<and> fst (make_request (env0 0 (respond 200 body_denied)) ''geocode'' None gmaps0)
       = Inl (ValueError (''Unexpected response status:'' @ [CHR 0x0A] @ '' '') (Some body_denied))"
proof -
  have r: "\<And>b. reply (env0 0 (respond 200 b)) = Responds \<lparr>status_code = 200, json_body = Some b\<rparr>"
    by (simp add: env0_def respond_def)
  have k: "ok \<lparr>status_code = 200, json_body = Some b\<rparr>" for b by (simp add: ok_def)
  have j: "json_body \<lparr>status_code = 200, json_body = Some b\<rparr> = Some b" for b by simp
  have s1: "subscript body_zero_results ''status'' = Inr (JStr ''ZERO_RESULTS'')"
    by (simp add: subscript_def body_zero_results_def)
  have s2: "subscript body_over_limit ''status'' = Inr (JStr ''OVER_QUERY_LIMIT'')"
    by (simp add: subscript_def body_over_limit_def)
  have s3: "subscript body_denied ''status'' = Inr (JStr ''REQUEST_DENIED'')"
    by (simp add: subscript_def body_denied_def)
  show ?thesis
    using make_request_status [OF r k j s1, of "''geocode''" None gmaps0]
      make_request_status [OF r k j s2, of "''geocode''" None gmaps0]
      make_request_status [OF r k j s3, of "''geocode''" None gmaps0]
    by simp
qed

section \<open>The rate limiter\<close>

lemma sleep_for_bound:
  assumes "length w = queries_per_second"
  shows "w ! 0 + 1 \<le> (case sleep_for w t of None \<Rightarrow> t | Some d \<Rightarrow> t + d)"
  using assms by (simp add: sleep_for_def Let_def)

lemma sleep_for_mono: "t \<le> (case sleep_for w t of None \<Rightarrow> t | Some d \<Rightarrow> t + d)"
  by (simp add: sleep_for_def Let_def)

lemma make_request_state:
  "snd (make_request e service ps s) =
     (let t2 = (case sleep_for (window s) (clock s + lag_check e) of
                  None \<Rightarrow> clock s + lag_check e | Some d \<Rightarrow> clock s + lag_check e + d) + lag_send e
      in s\<lparr>window := deque_append (window s) t2, clock := t2,
            sent := sent s @ [\<lparr>sent_at = t2,
                     url = ''https://maps.googleapis.com/maps/api/'' @ service @ ''/json'',
                     params = AList.update ''key'' (key s) (case ps of None \<Rightarrow> [] | Some p \<Rightarrow> p)\<rparr>]\<rparr>)"
  by (simp add: make_request_def Let_def split: transport.split)

lemma deque_append_drop:
  assumes "w = drop (length ts - queries_per_second) ts"
  shows "deque_append w x = drop (length (ts @ [x]) - queries_per_second) (ts @ [x])"
proof (cases "queries_per_second \<le> length ts")
  case True
  then have "length w = queries_per_second" using assms by simp
  moreover have "tl w = drop (Suc (length ts - queries_per_second)) ts"
    using assms by (simp add: drop_Suc tl_drop)
  moreover have "Suc (length ts) - queries_per_second = Suc (length ts - queries_per_second)"
    using True by simp
  moreover have "Suc 0 - queries_per_second = 0" by (simp add: queries_per_second_def)
  ultimately show ?thesis using True by (simp add: deque_append_def)
next
  case False
  then have "w = ts" using assms by simp
  then show ?thesis using False by (simp add: deque_append_def)
qed

lemma limiter_inv_step:
  assumes inv: "limiter_inv s" and l1: "0 \<le> lag_check e" and l2: "0 \<le> lag_send e"
  shows "limiter_inv (snd (make_request e service ps s))"
proof -
  define ts where "ts = dispatches s"
  define t0 where "t0 = clock s + lag_check e"
  define t1 where "t1 = (case sleep_for (window s) t0 of None \<Rightarrow> t0 | Some d \<Rightarrow> t0 + d)"
  define t2 where "t2 = t1 + lag_send e"
  define s' where "s' = snd (make_request e service ps s)"
  have srt: "sorted ts" and below: "\<forall>x \<in> set ts. x \<le> clock s"
    and win: "window s = drop (length ts - queries_per_second) ts" and sp: "spaced ts"
    using inv by (simp_all add: limiter_inv_def ts_def Let_def)
  have d': "dispatches s' = ts @ [t2]" and c': "clock s' = t2"
    and w': "window s' = deque_append (window s) t2"
    by (simp_all add: s'_def make_request_state dispatches_def Let_def ts_def t2_def t1_def t0_def
        split: option.split)
  have t01: "t0 \<le> t1" unfolding t1_def by (rule sleep_for_mono)
  have ct2: "clock s \<le> t2" using t01 l1 l2 by (simp add: t2_def t0_def)
  have srt': "sorted (ts @ [t2])"
    using srt below ct2 by (auto simp: sorted_append)
  have below': "\<forall>x \<in> set (ts @ [t2]). x \<le> t2" using below ct2 by auto
  have win': "window s' = drop (length (ts @ [t2]) - queries_per_second) (ts @ [t2])"
    unfolding w' by (rule deque_append_drop [OF win])
  have sp': "spaced (ts @ [t2])"
    unfolding spaced_def
  proof (intro allI impI)
    fix i assume i: "i + queries_per_second < length (ts @ [t2])"
    show "(ts @ [t2]) ! i + 1 \<le> (ts @ [t2]) ! (i + queries_per_second)"
    proof (cases "i + queries_per_second < length ts")
      case True
      then show ?thesis using sp by (simp add: spaced_def nth_append)
    next
      case False
      then have eq: "i + queries_per_second = length ts" using i by simp
      have q: "0 < queries_per_second" by (simp add: queries_per_second_def)
      have lw: "length (window s) = queries_per_second" using win eq by simp
      have "length ts - queries_per_second = i" using eq by simp
      then have "window s ! 0 = ts ! i" using win eq q by simp
      moreover have "window s ! 0 + 1 \<le> t1" unfolding t1_def by (rule sleep_for_bound [OF lw])
      ultimately have "ts ! i + 1 \<le> t2" using l2 by (simp add: t2_def)
      moreover have "i < length ts" using eq q by simp
      ultimately show ?thesis using eq by (simp add: nth_append)
    qed
  qed
  show ?thesis
    unfolding limiter_inv_def s'_def [symmetric] Let_def d' c'
    using srt' below' win' sp' by simp
qed

lemma limiter_inv_requests:
  "limiter_inv s \<Longrightarrow> \<forall>c \<in> set calls. 0 \<le> lag_check (fst c) \<and> 0 \<le> lag_send (fst c)
     \<Longrightarrow> limiter_inv (requests calls s)"
proof (induction calls arbitrary: s)
  case Nil
  then show ?case by simp
next
  case (Cons c calls)
  obtain e service ps where c: "c = (e, service, ps)" by (cases c)
  have "limiter_inv (snd (make_request e service ps s))"
    using Cons.prems c by (intro limiter_inv_step) simp_all
  then show ?case using Cons c by simp
qed

lemma limiter_inv_init: "limiter_inv (init k f c t)"
  by (simp add: limiter_inv_def init_def dispatches_def spaced_def)

lemma spaced_filter:
  assumes "sorted ts" and "spaced ts"
  shows "length (filter (\<lambda>x. a < x \<and> x \<le> a + 1) ts) \<le> queries_per_second"
  using assms
proof (induction ts)
  case Nil
  then show ?case by simp
next
  case (Cons x xs)
  have q: "0 < queries_per_second" by (simp add: queries_per_second_def)
  have srt: "sorted xs" using Cons.prems by simp
  have sp: "spaced xs" using Cons.prems(2) unfolding spaced_def
  proof (intro allI impI)
    fix i assume h: "\<forall>i. i + queries_per_second < length (x # xs) \<longrightarrow> (x # xs) ! i + 1 \<le> (x # xs) ! (i + queries_per_second)"
      and i: "i + queries_per_second < length xs"
    have "(x # xs) ! Suc i + 1 \<le> (x # xs) ! (Suc i + queries_per_second)"
      using spec [OF h, of "Suc i"] i by simp
    then show "xs ! i + 1 \<le> xs ! (i + queries_per_second)" by simp
  qed
  show ?case
  proof (cases "a < x")
    case False
    then show ?thesis using Cons.IH [OF srt sp] by simp
  next
    case True
    have late: "filter (\<lambda>y. a < y \<and> y \<le> a + 1) (drop (queries_per_second - 1) xs) = []"
    proof -
      have "\<forall>y \<in> set (drop (queries_per_second - 1) xs). a + 1 < y"
      proof
        fix y assume "y \<in> set (drop (queries_per_second - 1) xs)"
        then obtain j where j: "j < length (drop (queries_per_second - 1) xs)"
          and y: "y = drop (queries_per_second - 1) xs ! j"
          by (auto simp: in_set_conv_nth)
        have jl: "queries_per_second - 1 + j < length xs" using j by simp
        have y2: "y = xs ! (queries_per_second - 1 + j)" using y jl by simp
        have "0 + queries_per_second < length (x # xs)" using jl q by simp
        then have "(x # xs) ! 0 + 1 \<le> (x # xs) ! (0 + queries_per_second)"
          using Cons.prems(2) unfolding spaced_def by blast
        then have "x + 1 \<le> xs ! (queries_per_second - 1)" using q by (simp add: nth_Cons')
        moreover have "xs ! (queries_per_second - 1) \<le> xs ! (queries_per_second - 1 + j)"
          using srt jl by (simp add: sorted_nth_mono)
        ultimately show "a + 1 < y" using True y2 by simp
      qed
      then show ?thesis by (auto simp: filter_empty_conv)
    qed
    have "filter (\<lambda>y. a < y \<and> y \<le> a + 1) xs =
            filter (\<lambda>y. a < y \<and> y \<le> a + 1) (take (queries_per_second - 1) xs @ drop (queries_per_second - 1) xs)"
      by simp
    also have "\<dots> = filter (\<lambda>y. a < y \<and> y \<le> a + 1) (take (queries_per_second - 1) xs)"
      unfolding filter_append late by simp
    finally have "length (filter (\<lambda>y. a < y \<and> y \<le> a + 1) xs) \<le> queries_per_second - 1"
      by (metis length_filter_le length_take min.cobounded2 order_trans)
    then have "Suc (length (filter (\<lambda>y. a < y \<and> y \<le> a + 1) xs)) \<le> queries_per_second"
      and "length (filter (\<lambda>y. a < y \<and> y \<le> a + 1) xs) \<le> queries_per_second"
      using q by linarith+
    then show ?thesis by simp
  qed
qed

lemma length_dispatches_requests:
  "length (dispatches (requests calls s)) = length (dispatches s) + length calls"
proof (induction calls arbitrary: s)
  case Nil
  then show ?case by simp
next
  case (Cons c calls)
  obtain e service ps where c: "c = (e, service, ps)" by (cases c)
  show ?case using Cons.IH [of "snd (make_request e service ps s)"]
    by (simp add: c dispatches_def make_request_frame)
qed

text \<open>
  Claim C4. Time is the clock of the state, which only moves forward (no lag is
  negative) and which \<open>time.sleep\<close> moves by its argument or more. In every run of
  \<open>_make_request\<close> from a fresh object, a dispatch and the fiftieth dispatch after it are
  one second apart or more, so that the fifty-first request of a burst is dispatched
  1000 ms after the first or later, and no interval \<open>(t - 1, t]\<close> holds more than
  \<open>queries_per_second\<close> = 50 dispatches. When the window is full and less than a second
  has passed since its oldest entry, the call sleeps for the rest of that second before
  it dispatches.
\<close>

theorem rate_limit:
  assumes "\<forall>c \<in> set calls. 0 \<le> lag_check (fst c) \<and> 0 \<le> lag_send (fst c)"
  shows "(let ts = dispatches (requests calls (init k f c t0))
          in (\<forall>i. i + queries_per_second < length ts \<longrightarrow> ts ! i + 1 \<le> ts ! (i + queries_per_second))
             \<and> (\<forall>t. length (filter (\<lambda>x. t - 1 < x \<and> x \<le> t) ts) \<le> queries_per_second))
       \<and> (length (window s) = queries_per_second \<and> clock s + lag_check e - window s ! 0 < 1
            \<longrightarrow> sleep_for (window s) (clock s + lag_check e)
                  = Some (1 - (clock s + lag_check e - window s ! 0))
                \<and> sent_at (last (sent (snd (make_request e service ps s))))
                  = window s ! 0 + 1 + lag_send e)"
proof -
  define ts where "ts = dispatches (requests calls (init k f c t0))"
  have inv: "limiter_inv (requests calls (init k f c t0))"
    using limiter_inv_init assms by (rule limiter_inv_requests)
  then have srt: "sorted ts" and sp: "spaced ts"
    by (simp_all add: limiter_inv_def Let_def ts_def)
  have a: "\<forall>i. i + queries_per_second < length ts \<longrightarrow> ts ! i + 1 \<le> ts ! (i + queries_per_second)"
    using sp by (simp add: spaced_def)
  have b: "length (filter (\<lambda>x. t - 1 < x \<and> x \<le> t) ts) \<le> queries_per_second" for t
    using spaced_filter [OF srt sp, of "t - 1"] by simp
  have c: "sleep_for (window s) (clock s + lag_check e)
             = Some (1 - (clock s + lag_check e - window s ! 0))
           \<and> sent_at (last (sent (snd (make_request e service ps s))))
             = window s ! 0 + 1 + lag_send e"
    if "length (window s) = queries_per_second" and "clock s + lag_check e - window s ! 0 < 1"
    using that by (simp add: make_request_state sleep_for_def Let_def)
  show ?thesis
    using a b c unfolding ts_def [symmetric] Let_def by blast
qed

theorem rate_limit_witness:
  "length (dispatches (requests burst gmaps0)) = 51
   \<and> dispatches (requests burst gmaps0) ! 0 + 1 \<le> dispatches (requests burst gmaps0) ! 50
   \<and> length (filter (\<lambda>x. 1 - 1 < x \<and> x \<le> 1) (dispatches (requests burst gmaps0))) \<le> 50
   \<and> sleep_for (window (requests (butlast burst) gmaps0))
         (clock (requests (butlast burst) gmaps0) + 1 / 100) = Some (1 / 2)"
proof -
  define s where "s = requests (butlast burst) gmaps0"
  define e where "e = env0 (1 / 100) (respond 200 body_ok)"
  define ts where "ts = dispatches (requests burst gmaps0)"
  have h: "\<forall>c \<in> set burst. 0 \<le> lag_check (fst c) \<and> 0 \<le> lag_send (fst c)"
    by (simp add: burst_def env0_def)
  have n: "length ts = 51"
    using length_dispatches_requests [of burst gmaps0]
    by (simp add: ts_def burst_def gmaps0_def init_def dispatches_def)
  have w: "length (window s) = queries_per_second"
    unfolding s_def by code_simp
  have t: "clock s = 1 / 2" "window s ! 0 = 1 / 100"
    unfolding s_def by code_simp+
  have l: "lag_check e = 1 / 100" by (simp add: e_def env0_def)
  have q: "queries_per_second = 50" by (simp add: queries_per_second_def)
  have g: "init ''K'' 7 cache0 0 = gmaps0" by (simp add: gmaps0_def)
  note r = rate_limit [OF h, of "''K''" 7 cache0 0 s e "''geocode''" None]
  have a: "\<forall>i. i + queries_per_second < length ts \<longrightarrow> ts ! i + 1 \<le> ts ! (i + queries_per_second)"
    and b: "\<forall>t. length (filter (\<lambda>x. t - 1 < x \<and> x \<le> t) ts) \<le> queries_per_second"
    and c: "length (window s) = queries_per_second \<and> clock s + lag_check e - window s ! 0 < 1
            \<longrightarrow> sleep_for (window s) (clock s + lag_check e)
                  = Some (1 - (clock s + lag_check e - window s ! 0))
                \<and> sent_at (last (sent (snd (make_request e ''geocode'' None s))))
                  = window s ! 0 + 1 + lag_send e"
    using r unfolding g Let_def ts_def by blast+
  have a0: "ts ! 0 + 1 \<le> ts ! 50" using a [rule_format, of 0] n q by simp
  have b1: "length (filter (\<lambda>x. 1 - 1 < x \<and> x \<le> 1) ts) \<le> 50" using b [rule_format, of 1] q by simp
  have c1: "sleep_for (window s) (clock s + 1 / 100) = Some (1 / 2)"
    using c unfolding w t l by simp
  show ?thesis
    using n a0 b1 c1 unfolding ts_def s_def by blast
qed

section \<open>\<open>distance_matrix\<close>: the check of the mode\<close>

text \<open>
  Claim C5. A call of \<open>distance_matrix\<close> with a mode that is not one of walking,
  biking, driving and transit raises \<open>ValueError\<close> to its caller, whatever the memo
  holds, and leaves the state as it was: no request is sent and nothing is looked up.
\<close>

theorem distance_matrix_invalid_mode:
  assumes "mode \<notin> TRAVEL_MODES"
  shows "distance_matrix e mode origin dest lang units s
           = (Inl (ValueError (''DM doesn't support mode '' @ [CHR 0x27] @ mode @ [CHR 0x27] @ ''.'') None), s)"
  using assms by (simp add: distance_matrix_def)

theorem distance_matrix_invalid_mode_witness:
  "''flying'' \<notin> TRAVEL_MODES
   \<and> distance_matrix (env0 0 (respond 200 body_distance)) ''flying'' (37, -122) (37.1, -122.1)
        ''en'' ''metric'' (gmaps0\<lparr>dm_hist := (\<lambda>k. Some [])\<rparr>)
       = (Inl (ValueError ''DM doesn't support mode 'flying'.'' None), gmaps0\<lparr>dm_hist := (\<lambda>k. Some [])\<rparr>)"
proof -
  have m: "''flying'' \<notin> TRAVEL_MODES" by (simp add: TRAVEL_MODES_def)
  show ?thesis
    using m distance_matrix_invalid_mode [OF m, of "env0 0 (respond 200 body_distance)"
        "(37, -122)" "(37.1, -122.1)" "''en''" "''metric''" "gmaps0\<lparr>dm_hist := (\<lambda>k. Some [])\<rparr>"]
    by simp
qed

section \<open>The expiration of a cache entry\<close>



lemma py_round_nearest: "\<bar>of_int (py_round x) - x\<bar> \<le> 1 / 2"
  by (simp add: py_round_def Let_def)







section \<open>What the \<open>try\<close> blocks raise\<close>

text \<open>The operations on a JSON value raise TypeError, KeyError, IndexError,
  AttributeError or ValueError, which the last \<open>except\<close> clause absorbs.\<close>

lemma plain_ops:
  "plain (subscript x k)" "plain (py_get x k d)" "plain (py_len x)" "plain (subscript0 x)"
  "plain (py_in k x)" "plain (py_iter x)" "plain (py_float py x)" "plain (get_text x)"
  by (auto simp: plain_def subscript_def py_get_def py_len_def subscript0_def py_in_def py_iter_def
      py_float_def get_text_def except_absorbs split: json.splits option.splits list.splits)

lemma plain_ebind: "plain m \<Longrightarrow> (\<And>v. plain (f v)) \<Longrightarrow> plain (ebind m f)"
  by (auto simp: plain_def ebind_def split: sum.splits)

lemma plain_Inr: "plain (Inr v)"
  by (simp add: plain_def)

lemma plain_if: "plain a \<Longrightarrow> plain b \<Longrightarrow> plain (if c then a else b)"
  by simp

lemma plain_first_or_empty: "plain (first_or_empty x)"
  unfolding first_or_empty_def by (intro plain_ebind plain_if plain_ops plain_Inr)

lemma plain_geocode_extract: "plain (geocode_extract py body)"
  unfolding geocode_extract_def
  by (intro plain_ebind plain_if plain_ops plain_Inr plain_first_or_empty)

lemma plain_first_element: "plain (first_element body)"
  unfolding first_element_def
  by (intro plain_ebind plain_if plain_ops plain_Inr plain_first_or_empty)

lemma plain_flatten_types: "plain (flatten_types item cs details)"
proof (induction cs arbitrary: details)
  case Nil
  then show ?case by (simp add: plain_Inr)
next
  case (Cons c cs)
  have "plain (subscript item ''short_name'')" by (rule plain_ops)
  then show ?case using Cons
    by (auto simp: plain_def except_absorbs split: sum.splits)
qed

lemma plain_flatten_components: "plain (flatten_components items details)"
proof (induction items arbitrary: details)
  case Nil
  then show ?case by (simp add: plain_Inr)
next
  case (Cons item items)
  have "plain (ebind (ebind (subscript item ''types'') py_iter) (\<lambda>cs. flatten_types item cs details))"
    by (intro plain_ebind plain_ops plain_flatten_types)
  then show ?case using Cons
    by (auto simp: plain_def split: sum.splits)
qed

lemma plain_reverse_details: "plain (reverse_details body)"
  unfolding reverse_details_def
  by (intro plain_ebind plain_ops plain_first_or_empty plain_flatten_components)

lemma plain_Inl: "plain m \<Longrightarrow> m = Inl x \<Longrightarrow> except x = None"
  by (simp add: plain_def)

lemma plain_expiration: "plain (expiration py e s)"
  by (auto simp: plain_def expiration_def ebind_def monthrange_def timedelta_def datetime_add_def
      Let_def except_absorbs split: sum.splits if_splits option.splits)

lemma expiration_frame:
  "expiration py e (snd (make_request e' service ps s)) = expiration py e s"
  by (simp add: expiration_def make_request_frame)

lemma make_request_body:
  assumes "reply e = Responds r" and "ok r" and "json_body r = Some body"
    and "subscript body ''status'' = Inr (JStr ''OK'') \<or> subscript body ''status'' = Inr (JStr ''ZERO_RESULTS'')"
  shows "make_request e service ps s = (Inr body, snd (make_request e service ps s))"
proof -
  have "fst (make_request e service ps s) = Inr body"
    using assms by (auto simp: make_request_result receive_def classify_def ebind_def)
  then show ?thesis by (simp add: prod_eq_iff)
qed

lemma finish_plain: "except x = None \<Longrightarrow> finish (Some x) v s = (Inr v, s)"
  by (simp add: finish_def)

lemma finish_None: "finish None v s = (Inr v, s)"
  by (simp add: finish_def)

section \<open>\<open>geocode\<close> without a coordinate\<close>

lemma ebind_Inr: "ebind m f = Inr y \<Longrightarrow> \<exists>x. m = Inr x \<and> f x = Inr y"
  by (cases m) (simp_all add: ebind_def)

lemma py_get_Inr:
  "py_get x k d = Inr v
     \<Longrightarrow> \<exists>kvs. x = JObj kvs \<and> (map_of kvs k = Some v \<or> (map_of kvs k = None \<and> v = d))"
  by (cases x) (auto simp: py_get_def split: option.splits)

lemma subscript_Inr: "subscript x k = Inr v \<Longrightarrow> \<exists>kvs. x = JObj kvs \<and> map_of kvs k = Some v"
  by (cases x) (auto simp: subscript_def split: option.splits)

lemma first_or_empty_JObj:
  "first_or_empty x = Inr (JObj r) \<Longrightarrow> r \<noteq> [] \<Longrightarrow> \<exists>rest. x = JArr (JObj r # rest)"
  by (cases x) (auto simp: first_or_empty_def ebind_def py_len_def subscript0_def
      split: list.splits if_splits)

lemma extract_has_lat_lng:
  assumes "geocode_extract py body = Inr (Some p)"
  shows "has_lat_lng body"
proof -
  from assms obtain r1 where r1: "py_get body ''results'' (JArr []) = Inr r1"
    and a1: "ebind (first_or_empty r1) (\<lambda>r2.
     ebind (py_get r2 ''geometry'' (JObj [])) (\<lambda>r3.
     ebind (py_get r3 ''location'' (JObj [])) (\<lambda>r4.
     ebind (py_in ''lat'' r4) (\<lambda>has_lat.
     ebind (if has_lat then py_in ''lng'' r4 else Inr False) (\<lambda>has_both.
       if has_both
       then ebind (ebind (subscript r4 ''lat'') (py_float py)) (\<lambda>la.
            ebind (ebind (subscript r4 ''lng'') (py_float py)) (\<lambda>ln.
              Inr (Some (la, ln))))
       else Inr None))))) = Inr (Some p)"
    unfolding geocode_extract_def by (blast dest: ebind_Inr)
  from a1 obtain r2 where r2: "first_or_empty r1 = Inr r2"
    and a2: "ebind (py_get r2 ''geometry'' (JObj [])) (\<lambda>r3.
     ebind (py_get r3 ''location'' (JObj [])) (\<lambda>r4.
     ebind (py_in ''lat'' r4) (\<lambda>has_lat.
     ebind (if has_lat then py_in ''lng'' r4 else Inr False) (\<lambda>has_both.
       if has_both
       then ebind (ebind (subscript r4 ''lat'') (py_float py)) (\<lambda>la.
            ebind (ebind (subscript r4 ''lng'') (py_float py)) (\<lambda>ln.
              Inr (Some (la, ln))))
       else Inr None)))) = Inr (Some p)"
    by (blast dest: ebind_Inr)
  from a2 obtain r3 where r3: "py_get r2 ''geometry'' (JObj []) = Inr r3"
    and a3: "ebind (py_get r3 ''location'' (JObj [])) (\<lambda>r4.
     ebind (py_in ''lat'' r4) (\<lambda>has_lat.
     ebind (if has_lat then py_in ''lng'' r4 else Inr False) (\<lambda>has_both.
       if has_both
       then ebind (ebind (subscript r4 ''lat'') (py_float py)) (\<lambda>la.
            ebind (ebind (subscript r4 ''lng'') (py_float py)) (\<lambda>ln.
              Inr (Some (la, ln))))
       else Inr None))) = Inr (Some p)"
    by (blast dest: ebind_Inr)
  from a3 obtain r4 where r4: "py_get r3 ''location'' (JObj []) = Inr r4"
    and a4: "ebind (py_in ''lat'' r4) (\<lambda>has_lat.
     ebind (if has_lat then py_in ''lng'' r4 else Inr False) (\<lambda>has_both.
       if has_both
       then ebind (ebind (subscript r4 ''lat'') (py_float py)) (\<lambda>la.
            ebind (ebind (subscript r4 ''lng'') (py_float py)) (\<lambda>ln.
              Inr (Some (la, ln))))
       else Inr None)) = Inr (Some p)"
    by (blast dest: ebind_Inr)
  from a4 obtain has_lat has_both where
    a6: "(if has_both
       then ebind (ebind (subscript r4 ''lat'') (py_float py)) (\<lambda>la.
            ebind (ebind (subscript r4 ''lng'') (py_float py)) (\<lambda>ln.
              Inr (Some (la, ln))))
       else Inr None) = Inr (Some p)"
    by (blast dest: ebind_Inr)
  then have a7: "ebind (ebind (subscript r4 ''lat'') (py_float py)) (\<lambda>la.
            ebind (ebind (subscript r4 ''lng'') (py_float py)) (\<lambda>ln.
              Inr (Some (la, ln)))) = Inr (Some p)"
    by (simp split: if_splits)
  then obtain vla la where la: "subscript r4 ''lat'' = Inr vla"
    and a8: "ebind (ebind (subscript r4 ''lng'') (py_float py)) (\<lambda>ln. Inr (Some (la, ln))) = Inr (Some p)"
    by (blast dest: ebind_Inr)
  then obtain vln where ln: "subscript r4 ''lng'' = Inr vln"
    by (blast dest: ebind_Inr)
  from la obtain l where l: "r4 = JObj l" "map_of l ''lat'' = Some vla"
    by (blast dest: subscript_Inr)
  with ln have l2: "map_of l ''lng'' = Some vln"
    by (auto dest: subscript_Inr)
  from r4 l obtain g where g: "r3 = JObj g" "map_of g ''location'' = Some (JObj l)"
    by (auto dest!: py_get_Inr)
  from r3 g obtain r where r: "r2 = JObj r" "map_of r ''geometry'' = Some (JObj g)"
    by (auto dest!: py_get_Inr)
  from r have "r \<noteq> []" by auto
  with r2 r obtain rest where rest: "r1 = JArr (JObj r # rest)"
    by (auto dest: first_or_empty_JObj)
  from r1 rest obtain kvs where kvs: "body = JObj kvs" "map_of kvs ''results'' = Some (JArr (JObj r # rest))"
    by (auto dest!: py_get_Inr)
  show ?thesis
    using kvs r g l l2 by (simp add: has_lat_lng_def location_def)
qed

text \<open>
  Claim C8. On a cache miss of \<open>geocode\<close>, when the request returns a body (status
  \<open>OK\<close> or \<open>ZERO_RESULTS\<close>) that has no \<open>lat\<close> and \<open>lng\<close> at
  \<open>results[0].geometry.location\<close>, the call returns \<open>None\<close>, raises nothing and
  leaves the cache as it was. The cache changes only when both were extracted: then
  the entry written is the pair of floats, under the lowercased address, with the
  value of \<open>expiration\<close>.
\<close>

theorem geocode_without_lat_lng:
  assumes miss: "cache_geocode_get (cache s) (lower addr) = None"
    and reply: "reply e = Responds r" and ok: "ok r" and body: "json_body r = Some body"
    and status: "subscript body ''status'' = Inr (JStr ''OK'')
                 \<or> subscript body ''status'' = Inr (JStr ''ZERO_RESULTS'')"
  shows "(\<not> has_lat_lng body
            \<longrightarrow> fst (geocode py e addr language s) = Inr None
                \<and> cache (snd (geocode py e addr language s)) = cache s)
       \<and> (cache (snd (geocode py e addr language s)) \<noteq> cache s
            \<longrightarrow> has_lat_lng body
                \<and> (\<exists>latlng expires.
                      geocode_extract py body = Inr (Some latlng)
                      \<and> expiration py e s = Inr expires
                      \<and> fst (geocode py e addr language s) = Inr (Some latlng)
                      \<and> cache (snd (geocode py e addr language s))
                          = cache_geocode_put (cache s) (lower addr) latlng expires))"
proof -
  define ps where "ps = Some [(''address'', lower addr), (''language'', language)]"
  define s1 where "s1 = snd (make_request e ''geocode'' ps s)"
  have mr: "make_request e ''geocode'' ps s = (Inr body, s1)"
    unfolding s1_def by (rule make_request_body [OF reply ok body status])
  have c1: "cache s1 = cache s" and e1: "expiration py e s1 = expiration py e s"
    by (simp_all add: s1_def make_request_frame expiration_frame)
  have g: "geocode py e addr language s
             = (case geocode_try py e (lower addr) language s of
                  (raised, latlng, s') \<Rightarrow> finish raised latlng s')"
    using miss by (simp add: geocode_def Let_def)
  show ?thesis
  proof (cases "geocode_extract py body")
    case (Inl x)
    have "except x = None" using plain_geocode_extract [of py body] Inl by (simp add: plain_def)
    then have "geocode py e addr language s = (Inr None, s1)"
      using Inl mr by (simp add: g geocode_try_def ps_def finish_plain)
    then show ?thesis using c1 by simp
  next
    case (Inr found)
    show ?thesis
    proof (cases found)
      case None
      then have "geocode py e addr language s = (Inr None, s1)"
        using Inr mr by (simp add: g geocode_try_def ps_def finish_None)
      then show ?thesis using c1 by simp
    next
      case (Some latlng)
      have h: "has_lat_lng body" using Inr Some by (auto intro: extract_has_lat_lng)
      show ?thesis
      proof (cases "expiration py e s")
        case (Inl x)
        have "except x = None" using plain_expiration [of py e s] Inl by (simp add: plain_def)
        then have "geocode py e addr language s = (Inr (Some latlng), s1)"
          using Inr Some Inl mr e1 by (simp add: g geocode_try_def ps_def finish_plain)
        then show ?thesis using c1 h by simp
      next
        case (Inr expires)
        have "geocode py e addr language s
                = (Inr (Some latlng), s1\<lparr>cache := cache_geocode_put (cache s1) (lower addr) latlng expires\<rparr>)"
          using \<open>geocode_extract py body = Inr found\<close> Some Inr mr e1
          by (simp add: g geocode_try_def ps_def finish_None)
        then show ?thesis using c1 h \<open>geocode_extract py body = Inr found\<close> Some Inr by simp
      qed
    qed
  qed
qed

section \<open>\<open>reverse_geocode\<close> with no result\<close>

text \<open>
  Claim C10. On a cache miss of \<open>reverse_geocode\<close>, when the body has the status
  \<open>ZERO_RESULTS\<close> and its \<open>results\<close> are empty or absent, the loop of line 196
  iterates over \<open>None\<close>: the \<open>try\<close> block ends with TypeError, which the last
  \<open>except\<close> clause absorbs, the call returns the defaults as they were seeded, and
  the cache is left as it was.
\<close>

theorem reverse_geocode_zero_results:
  assumes miss: "cache_reverse_get (cache s) (format_latlng latlng) = None"
    and reply: "reply e = Responds r" and ok: "ok r" and body: "json_body r = Some body"
    and status: "subscript body ''status'' = Inr (JStr ''ZERO_RESULTS'')"
    and results: "py_get body ''results'' (JArr []) = Inr (JArr [])"
  shows "fst (reverse_geocode_try py e (format_latlng latlng) language reverse_geocode_defaults s)
           = Some TypeError
       \<and> fst (reverse_geocode py e latlng language s) = Inr reverse_geocode_defaults
       \<and> cache (snd (reverse_geocode py e latlng language s)) = cache s"
proof -
  define ps where "ps = Some [(''latlng'', format_latlng latlng), (''language'', language)]"
  define s1 where "s1 = snd (make_request e ''geocode'' ps s)"
  have mr: "make_request e ''geocode'' ps s = (Inr body, s1)"
    unfolding s1_def using make_request_body [OF reply ok body] status by simp
  have c1: "cache s1 = cache s" by (simp add: s1_def make_request_frame)
  have d: "reverse_details body = Inl TypeError"
    using results
    by (simp add: reverse_details_def ebind_def first_or_empty_def py_len_def py_get_def py_iter_def)
  have t: "reverse_geocode_try py e (format_latlng latlng) language reverse_geocode_defaults s
             = (Some TypeError, reverse_geocode_defaults, s1)"
    using mr d by (simp add: reverse_geocode_try_def ps_def)
  have "reverse_geocode py e latlng language s = (Inr reverse_geocode_defaults, s1)"
    using miss t by (simp add: reverse_geocode_def Let_def finish_plain except_absorbs)
  then show ?thesis using t c1 by simp
qed

section \<open>Evaluations at the concrete inputs\<close>

lemma respond_facts:
  "reply (env0 lag (respond code b)) = Responds \<lparr>status_code = code, json_body = Some b\<rparr>"
  "json_body \<lparr>status_code = code, json_body = Some b\<rparr> = Some b"
  "ok \<lparr>status_code = 200, json_body = Some b\<rparr>"
  by (simp_all add: env0_def respond_def ok_def)

lemma gmaps0_misses:
  "cache_geocode_get (cache gmaps0) k = None" "cache_reverse_get (cache gmaps0) k = None"
  by (simp_all add: gmaps0_def init_def cache0_def cache_geocode_get_def cache_reverse_get_def)

lemma request_fails:
  "fst (make_request (env0 lag (respond 403 body_denied)) service ps s) = Inl (HTTPError 403)"
  "fst (make_request (env0 lag (Raises Timeout)) service ps s) = Inl Timeout"
  "fst (make_request (env0 lag (respond 200 body_over_limit)) service ps s)
     = Inl (UserWarning ''API Quota exceeded.'')"
  "fst (make_request (env0 lag (respond 200 body_denied)) service ps s)
     = Inl (ValueError (''Unexpected response status:'' @ [CHR 0x0A] @ '' '') (Some body_denied))"
  by (simp_all add: make_request_result env0_def respond_def receive_def ok_def classify_def
      ebind_def subscript_def body_denied_def body_over_limit_def)

lemma except_cases:
  "except (HTTPError c) = Some (AttributeError ''message'')"
  "except Timeout = Some (AttributeError ''message'')"
  "except (UserWarning m) = None"
  "except (ValueError m b) = None"
  by (simp_all add: except_def exn_message_def)

section \<open>An operation whose request fails\<close>

lemma geocode_after_failure:
  assumes "cache_geocode_get (cache s) (lower addr) = None"
    and "fst (make_request e ''geocode'' (Some [(''address'', lower addr), (''language'', language)]) s) = Inl x"
  shows "fst (geocode py e addr language s) = (case except x of None \<Rightarrow> Inr None | Some y \<Rightarrow> Inl y)"
proof -
  obtain s1 where "make_request e ''geocode'' (Some [(''address'', lower addr), (''language'', language)]) s
      = (Inl x, s1)"
    using assms(2) by (cases "make_request e ''geocode''
      (Some [(''address'', lower addr), (''language'', language)]) s") simp
  then show ?thesis
    using assms(1) by (simp add: geocode_def geocode_try_def Let_def finish_def split: option.split)
qed

lemma reverse_geocode_after_failure:
  assumes "cache_reverse_get (cache s) (format_latlng latlng) = None"
    and "fst (make_request e ''geocode''
           (Some [(''latlng'', format_latlng latlng), (''language'', language)]) s) = Inl x"
  shows "fst (reverse_geocode py e latlng language s)
           = (case except x of None \<Rightarrow> Inr reverse_geocode_defaults | Some y \<Rightarrow> Inl y)"
proof -
  obtain s1 where "make_request e ''geocode''
      (Some [(''latlng'', format_latlng latlng), (''language'', language)]) s = (Inl x, s1)"
    using assms(2) by (cases "make_request e ''geocode''
      (Some [(''latlng'', format_latlng latlng), (''language'', language)]) s") simp
  then show ?thesis
    using assms(1)
    by (simp add: reverse_geocode_def reverse_geocode_try_def Let_def finish_def split: option.split)
qed

text \<open>The keys of \<open>_dm_hist\<close> are the four travel modes (line 47); a key of the form
  \<open>origin:dest\<close> is none of them, and no call of \<open>distance_matrix\<close> changes the
  memo.\<close>

lemma mode_without_colon: "k \<in> TRAVEL_MODES \<Longrightarrow> CHR '':'' \<notin> set k"
  by (auto simp: TRAVEL_MODES_def)

lemma memo_key_not_mode: "a @ '':'' @ b \<notin> TRAVEL_MODES"
  using mode_without_colon [of "a @ '':'' @ b"] by auto

lemma distance_matrix_unfold:
  assumes "mode \<in> TRAVEL_MODES"
    and "dm_hist s (format_latlng origin @ '':'' @ format_latlng dest) = None"
  shows "distance_matrix e mode origin dest lang units s
           = (case distance_matrix_try e mode (format_latlng origin) (format_latlng dest) lang units
                     [(mode @ ''_distance'', Unknown REGULAR), (mode @ ''_duration'', Unknown REGULAR)] s of
                (raised, dts', s') \<Rightarrow> finish raised dts' s')"
  using assms by (simp add: distance_matrix_def Let_def)

lemma distance_matrix_try_state:
  "snd (snd (distance_matrix_try e mode origin dest lang units dts s))
     = snd (make_request e ''distancematrix''
              (Some [(''mode'', mode), (''origins'', origin), (''destinations'', dest),
                     (''language'', lang), (''units'', units)]) s)"
  by (simp add: distance_matrix_try_def Let_def split: prod.split sum.split)

lemma finish_state: "snd (finish raised v s) = s"
  by (simp add: finish_def split: option.split)

lemma distance_matrix_state:
  assumes "mode \<in> TRAVEL_MODES"
    and "dm_hist s (format_latlng origin @ '':'' @ format_latlng dest) = None"
  shows "snd (distance_matrix e mode origin dest lang units s)
           = snd (make_request e ''distancematrix''
                    (Some [(''mode'', mode), (''origins'', format_latlng origin),
                           (''destinations'', format_latlng dest),
                           (''language'', lang), (''units'', units)]) s)"
proof -
  obtain raised dts' s' where t:
    "distance_matrix_try e mode (format_latlng origin) (format_latlng dest) lang units
       [(mode @ ''_distance'', Unknown REGULAR), (mode @ ''_duration'', Unknown REGULAR)] s
     = (raised, dts', s')"
    by (cases "distance_matrix_try e mode (format_latlng origin) (format_latlng dest) lang units
       [(mode @ ''_distance'', Unknown REGULAR), (mode @ ''_duration'', Unknown REGULAR)] s")
  have "s' = snd (make_request e ''distancematrix''
                    (Some [(''mode'', mode), (''origins'', format_latlng origin),
                           (''destinations'', format_latlng dest),
                           (''language'', lang), (''units'', units)]) s)"
    using distance_matrix_try_state [of e mode "format_latlng origin" "format_latlng dest" lang units
      "[(mode @ ''_distance'', Unknown REGULAR), (mode @ ''_duration'', Unknown REGULAR)]" s]
    by (simp add: t)
  then show ?thesis
    by (simp add: distance_matrix_unfold [OF assms] t finish_state)
qed

lemma distance_matrix_keeps_memo:
  "dm_hist (snd (distance_matrix e mode origin dest lang units s)) = dm_hist s"
proof (cases "mode \<in> TRAVEL_MODES
    \<and> dm_hist s (format_latlng origin @ '':'' @ format_latlng dest) = None")
  case True
  then show ?thesis by (simp add: distance_matrix_state make_request_frame)
next
  case False
  then show ?thesis by (auto simp: distance_matrix_def Let_def)
qed

lemma distance_matrix_after_failure:
  assumes "mode \<in> TRAVEL_MODES"
    and "dm_hist s (format_latlng origin @ '':'' @ format_latlng dest) = None"
    and "fst (make_request e ''distancematrix''
                    (Some [(''mode'', mode), (''origins'', format_latlng origin),
                           (''destinations'', format_latlng dest),
                           (''language'', lang), (''units'', units)]) s) = Inl x"
  shows "fst (distance_matrix e mode origin dest lang units s)
           = (case except x of
                None \<Rightarrow> Inr [(mode @ ''_distance'', Unknown REGULAR), (mode @ ''_duration'', Unknown REGULAR)]
              | Some y \<Rightarrow> Inl y)"
proof -
  obtain s1 where "make_request e ''distancematrix''
                    (Some [(''mode'', mode), (''origins'', format_latlng origin),
                           (''destinations'', format_latlng dest),
                           (''language'', lang), (''units'', units)]) s = (Inl x, s1)"
    using assms(3) by (cases "make_request e ''distancematrix''
                    (Some [(''mode'', mode), (''origins'', format_latlng origin),
                           (''destinations'', format_latlng dest),
                           (''language'', lang), (''units'', units)]) s") simp
  then show ?thesis
    unfolding distance_matrix_unfold [OF assms(1,2)]
    by (simp add: distance_matrix_try_def Let_def finish_def split: option.split)
qed

lemma gmaps0_memo: "dm_hist gmaps0 (a @ '':'' @ b) = None"
  using memo_key_not_mode [of a b] by (simp add: gmaps0_def init_def)

section \<open>The claims at the concrete inputs\<close>

text \<open>A body with the status \<open>ZERO_RESULTS\<close> and no result: \<open>geocode\<close> returns
  \<open>None\<close> and the cache stays empty.\<close>

theorem geocode_without_lat_lng_witness:
  "\<not> has_lat_lng body_zero_results
   \<and> fst (geocode python0 (env0 0 (respond 200 body_zero_results)) ''Main St'' ''en'' gmaps0) = Inr None
   \<and> cache (snd (geocode python0 (env0 0 (respond 200 body_zero_results)) ''Main St'' ''en'' gmaps0))
       = cache gmaps0"
proof -
  have s1: "subscript body_zero_results ''status'' = Inr (JStr ''OK'')
            \<or> subscript body_zero_results ''status'' = Inr (JStr ''ZERO_RESULTS'')"
    by (simp add: subscript_def body_zero_results_def)
  have n: "\<not> has_lat_lng body_zero_results"
    by (simp add: has_lat_lng_def location_def body_zero_results_def)
  note t = geocode_without_lat_lng [OF gmaps0_misses(1) respond_facts(1) respond_facts(3)
        respond_facts(2) s1, of python0 0 "''Main St''" "''en''"]
  from t n show ?thesis by blast
qed

text \<open>The same body for \<open>reverse_geocode\<close>: TypeError in the \<open>try\<close> block, the
  defaults returned, the cache as it was.\<close>

theorem reverse_geocode_zero_results_witness:
  "fst (reverse_geocode_try python0 (env0 0 (respond 200 body_zero_results))
          (format_latlng (37.422, -122.084)) ''en'' reverse_geocode_defaults gmaps0) = Some TypeError
   \<and> fst (reverse_geocode python0 (env0 0 (respond 200 body_zero_results)) (37.422, -122.084) ''en'' gmaps0)
       = Inr reverse_geocode_defaults
   \<and> cache (snd (reverse_geocode python0 (env0 0 (respond 200 body_zero_results)) (37.422, -122.084) ''en'' gmaps0))
       = cache gmaps0"
proof -
  have s1: "subscript body_zero_results ''status'' = Inr (JStr ''ZERO_RESULTS'')"
    by (simp add: subscript_def body_zero_results_def)
  have r1: "py_get body_zero_results ''results'' (JArr []) = Inr (JArr [])"
    by (simp add: py_get_def body_zero_results_def)
  show ?thesis
    by (rule reverse_geocode_zero_results [OF gmaps0_misses(2) respond_facts(1) respond_facts(3)
        respond_facts(2) s1 r1])
qed

section \<open>A failed request and the \<open>except\<close> clauses\<close>

text \<open>
  Claim C1 says that every failure of the remote request is turned into a default
  value. The clauses for \<open>HTTPError\<close> and \<open>Timeout\<close> log \<open>e.message\<close>, which
  Python 3 does not have: an answer with the HTTP status 403 and a JSON body, or a
  timeout, makes each operation raise AttributeError to its caller, from inside the
  \<open>except\<close> clause.
\<close>

theorem http_error_escapes:
  "fst (geocode python0 (env0 0 (respond 403 body_denied)) ''Main St'' ''en'' gmaps0)
     = Inl (AttributeError ''message'')
   \<and> fst (reverse_geocode python0 (env0 0 (respond 403 body_denied)) (37.422, -122.084) ''en'' gmaps0)
     = Inl (AttributeError ''message'')
   \<and> fst (distance_matrix (env0 0 (respond 403 body_denied)) ''driving'' (37, -122) (37.1, -122.1)
            ''en'' ''metric'' gmaps0)
     = Inl (AttributeError ''message'')
   \<and> fst (geocode python0 (env0 0 (Raises Timeout)) ''Main St'' ''en'' gmaps0)
     = Inl (AttributeError ''message'')"
proof -
  have m: "''driving'' \<in> TRAVEL_MODES" by (simp add: TRAVEL_MODES_def)
  show ?thesis
    using geocode_after_failure [OF gmaps0_misses(1) request_fails(1)]
      reverse_geocode_after_failure [OF gmaps0_misses(2) request_fails(1)]
      distance_matrix_after_failure [OF m gmaps0_memo request_fails(1)]
      geocode_after_failure [OF gmaps0_misses(1) request_fails(2)]
    by (simp add: except_cases)
qed

text \<open>The clauses for the exceeded quota and for the unexpected status have no such
  attribute lookup, and do return the default.\<close>

lemma quota_and_unexpected_degrade:
  "fst (geocode python0 (env0 0 (respond 200 body_over_limit)) ''Main St'' ''en'' gmaps0) = Inr None"
  "fst (geocode python0 (env0 0 (respond 200 body_denied)) ''Main St'' ''en'' gmaps0) = Inr None"
  using geocode_after_failure [OF gmaps0_misses(1) request_fails(3)]
    geocode_after_failure [OF gmaps0_misses(1) request_fails(4)]
  by (simp_all add: except_cases)

section \<open>The memo of \<open>distance_matrix\<close>\<close>

text \<open>What a call returns after a miss of the memo and a successful request: the two
  texts of \<open>rows[0].elements[0]\<close>.\<close>

lemma first_element_body_distance:
  "first_element body_distance
     = Inr (JObj [(''distance'', JObj [(''text'', JStr ''5.2 km'')]),
                  (''duration'', JObj [(''text'', JStr ''9 mins'')])])"
  by (simp add: first_element_def body_distance_def ebind_def py_get_def first_or_empty_def py_len_def
      subscript0_def)

lemma distance_matrix_returns:
  assumes "mode \<in> TRAVEL_MODES"
    and "dm_hist s (format_latlng origin @ '':'' @ format_latlng dest) = None"
    and "fst (make_request e ''distancematrix''
                    (Some [(''mode'', mode), (''origins'', format_latlng origin),
                           (''destinations'', format_latlng dest),
                           (''language'', lang), (''units'', units)]) s) = Inr body"
    and "first_element body = Inr el"
    and "ebind (py_get el ''distance'' (JObj [])) get_text = Inr dist_text"
    and "ebind (py_get el ''duration'' (JObj [])) get_text = Inr dur_text"
  shows "fst (distance_matrix e mode origin dest lang units s)
           = Inr [(mode @ ''_distance'', dist_text), (mode @ ''_duration'', dur_text)]"
proof -
  obtain s1 where "make_request e ''distancematrix''
                    (Some [(''mode'', mode), (''origins'', format_latlng origin),
                           (''destinations'', format_latlng dest),
                           (''language'', lang), (''units'', units)]) s = (Inr body, s1)"
    using assms(3) by (cases "make_request e ''distancematrix''
                    (Some [(''mode'', mode), (''origins'', format_latlng origin),
                           (''destinations'', format_latlng dest),
                           (''language'', lang), (''units'', units)]) s") simp
  then show ?thesis
    unfolding distance_matrix_unfold [OF assms(1,2)]
    using assms(4,5,6) by (simp add: distance_matrix_try_def Let_def finish_def)
qed

text \<open>
  Claim C2 says that a successful call stores its result in the memo under
  \<open>origin:dest\<close>, so that a second call for the same coordinates, with another mode
  too, returns that entry without a request. After the successful call for
  \<open>driving\<close> the memo has no entry under that key, and the call for \<open>transit\<close> with
  the same coordinates sends a second request and returns an estimate of its own.
\<close>

theorem distance_matrix_not_memoized:
  "fst (distance_matrix (env0 0 (respond 200 body_distance)) ''driving'' (37, -122) (37.1, -122.1)
          ''en'' ''metric'' gmaps0)
     = Inr [(''driving_distance'', Val (JStr ''5.2 km'')), (''driving_duration'', Val (JStr ''9 mins''))]
   \<and> dm_hist after_driving (format_latlng (37, -122) @ '':'' @ format_latlng (37.1, -122.1)) = None
   \<and> length (sent after_driving) = 1
   \<and> fst (distance_matrix (env0 0 (respond 200 body_distance)) ''transit'' (37, -122) (37.1, -122.1)
            ''en'' ''metric'' after_driving)
     = Inr [(''transit_distance'', Val (JStr ''5.2 km'')), (''transit_duration'', Val (JStr ''9 mins''))]
   \<and> length (sent (snd (distance_matrix (env0 0 (respond 200 body_distance)) ''transit'' (37, -122)
                          (37.1, -122.1) ''en'' ''metric'' after_driving))) = 2"
proof -
  have m: "''driving'' \<in> TRAVEL_MODES" "''transit'' \<in> TRAVEL_MODES"
    by (simp_all add: TRAVEL_MODES_def)
  have st: "subscript body_distance ''status'' = Inr (JStr ''OK'')
            \<or> subscript body_distance ''status'' = Inr (JStr ''ZERO_RESULTS'')"
    by (simp add: subscript_def body_distance_def)
  have b: "fst (make_request (env0 0 (respond 200 body_distance)) service ps s) = Inr body_distance"
    for service ps s
    using make_request_body [OF respond_facts(1) respond_facts(3) respond_facts(2) st,
        of 0 service ps s]
    by (metis fst_conv)
  have d: "ebind (py_get (JObj [(''distance'', JObj [(''text'', JStr ''5.2 km'')]),
                              (''duration'', JObj [(''text'', JStr ''9 mins'')])]) ''distance'' (JObj []))
             get_text = Inr (Val (JStr ''5.2 km''))"
    "ebind (py_get (JObj [(''distance'', JObj [(''text'', JStr ''5.2 km'')]),
                              (''duration'', JObj [(''text'', JStr ''9 mins'')])]) ''duration'' (JObj []))
             get_text = Inr (Val (JStr ''9 mins''))"
    by (simp_all add: ebind_def py_get_def get_text_def)
  have memo1: "dm_hist after_driving (a @ '':'' @ c) = None" for a c
    unfolding after_driving_def distance_matrix_keeps_memo by (rule gmaps0_memo)
  have sent1: "length (sent after_driving) = 1"
    unfolding after_driving_def distance_matrix_state [OF m(1) gmaps0_memo]
    by (simp add: make_request_frame gmaps0_def init_def)
  have r1: "fst (distance_matrix (env0 0 (respond 200 body_distance)) ''driving'' (37, -122) (37.1, -122.1)
          ''en'' ''metric'' gmaps0)
     = Inr [(''driving_distance'', Val (JStr ''5.2 km'')), (''driving_duration'', Val (JStr ''9 mins''))]"
    using distance_matrix_returns [OF m(1) gmaps0_memo b first_element_body_distance d] by simp
  have r2: "fst (distance_matrix (env0 0 (respond 200 body_distance)) ''transit'' (37, -122) (37.1, -122.1)
            ''en'' ''metric'' after_driving)
     = Inr [(''transit_distance'', Val (JStr ''5.2 km'')), (''transit_duration'', Val (JStr ''9 mins''))]"
    using distance_matrix_returns [OF m(2) memo1 b first_element_body_distance d] by simp
  have sent2: "length (sent (snd (distance_matrix (env0 0 (respond 200 body_distance)) ''transit'' (37, -122)
                          (37.1, -122.1) ''en'' ''metric'' after_driving))) = 2"
    unfolding distance_matrix_state [OF m(2) memo1]
    by (simp add: make_request_frame sent1)
  show ?thesis using r1 memo1 sent1 r2 sent2 by blast
qed

section \<open>The composed address\<close>

text \<open>
  Claim C6, as amended. On a cache miss of \<open>reverse_geocode\<close>, when the request
  returns a body and its address components are read without an exception, the record
  returned has \<open>address\<close> equal to the string \<open>"{street_num} {street}"\<close> and
  \<open>address_eu\<close> equal to \<open>"{street} {street_num}"\<close>, formatted from the fields of the
  same record.
\<close>

theorem reverse_geocode_composes_address:
  assumes miss: "cache_reverse_get (cache s) (format_latlng latlng) = None"
    and reply: "reply e = Responds r" and ok: "ok r" and body: "json_body r = Some body"
    and status: "subscript body ''status'' = Inr (JStr ''OK'')
                 \<or> subscript body ''status'' = Inr (JStr ''ZERO_RESULTS'')"
    and details: "reverse_details body = Inr details"
  shows "\<exists>d. fst (reverse_geocode py e latlng language s) = Inr d
            \<and> address d = Val (JStr (py_format py (street_num d) @ '' '' @ py_format py (street d)))
            \<and> address_eu d = Val (JStr (py_format py (street d) @ '' '' @ py_format py (street_num d)))"
proof -
  define ps where "ps = Some [(''latlng'', format_latlng latlng), (''language'', language)]"
  define s1 where "s1 = snd (make_request e ''geocode'' ps s)"
  define d where "d = populate py details reverse_geocode_defaults"
  have mr: "make_request e ''geocode'' ps s = (Inr body, s1)"
    unfolding s1_def by (rule make_request_body [OF reply ok body status])
  have "fst (reverse_geocode py e latlng language s) = Inr d"
  proof (cases "expiration py e s1")
    case (Inl x)
    have "except x = None" using plain_expiration [of py e s1] Inl by (simp add: plain_def)
    then show ?thesis
      using miss mr details Inl
      by (simp add: reverse_geocode_def reverse_geocode_try_def ps_def Let_def d_def finish_plain)
  next
    case (Inr expires)
    then show ?thesis
      using miss mr details
      by (simp add: reverse_geocode_def reverse_geocode_try_def ps_def Let_def d_def finish_None)
  qed
  moreover have "address d = Val (JStr (py_format py (street_num d) @ '' '' @ py_format py (street d)))"
    and "address_eu d = Val (JStr (py_format py (street d) @ '' '' @ py_format py (street_num d)))"
    by (simp_all add: d_def populate_def Let_def)
  ultimately show ?thesis by blast
qed

theorem reverse_geocode_composes_address_witness:
  "\<exists>d. fst (reverse_geocode python0 (env0 0 (respond 200 body_amphitheatre)) (37.422, -122.084) ''en'' gmaps0) = Inr d
      \<and> address d = Val (JStr (py_format python0 (street_num d) @ '' '' @ py_format python0 (street d)))
      \<and> address_eu d = Val (JStr (py_format python0 (street d) @ '' '' @ py_format python0 (street_num d)))"
proof -
  have s1: "subscript body_amphitheatre ''status'' = Inr (JStr ''OK'')
            \<or> subscript body_amphitheatre ''status'' = Inr (JStr ''ZERO_RESULTS'')"
    by (simp add: subscript_def body_amphitheatre_def)
  have "\<exists>details. reverse_details body_amphitheatre = Inr details"
    by (simp add: reverse_details_def body_amphitheatre_def ebind_def py_get_def first_or_empty_def
        py_len_def subscript0_def py_iter_def subscript_def hashable_def)
  then obtain details where d: "reverse_details body_amphitheatre = Inr details" by blast
  show ?thesis
    by (rule reverse_geocode_composes_address [OF gmaps0_misses(2) respond_facts(1) respond_facts(3)
        respond_facts(2) s1 d])
qed

text \<open>
  As the claim is stated it also covers the remote failure, and fails there: with the
  quota exceeded the defaults are returned, whose \<open>address\<close> and \<open>address_eu\<close> are the
  sentinel \<open>REGULAR\<close> (lines 166 and 167), not the text composed of \<open>street_num\<close> and
  \<open>street\<close>.
\<close>

theorem reverse_geocode_address_counterexample:
  "fst (reverse_geocode python0 (env0 0 (respond 200 body_over_limit)) (37.422, -122.084) ''en'' gmaps0)
     = Inr reverse_geocode_defaults
   \<and> address reverse_geocode_defaults
       \<noteq> Val (JStr (py_format python0 (street_num reverse_geocode_defaults) @ '' ''
                     @ py_format python0 (street reverse_geocode_defaults)))
   \<and> address_eu reverse_geocode_defaults
       \<noteq> Val (JStr (py_format python0 (street reverse_geocode_defaults) @ '' ''
                     @ py_format python0 (street_num reverse_geocode_defaults)))
   \<and> py_format python0 (address reverse_geocode_defaults) = ''unknown''
   \<and> py_format python0 (street_num reverse_geocode_defaults) @ '' ''
       @ py_format python0 (street reverse_geocode_defaults) = ''??? unknown''"
  using reverse_geocode_after_failure [OF gmaps0_misses(2) request_fails(3)]
  by (simp add: except_cases reverse_geocode_defaults_def py_format_def python0_def)

text \<open>Whatever text \<open>str\<close> gives the sentinels, the default \<open>address\<close> is shorter than
  the composed one.\<close>

lemma defaults_address_never_composed:
  "py_format py (address reverse_geocode_defaults)
     \<noteq> py_format py (street_num reverse_geocode_defaults) @ '' ''
         @ py_format py (street reverse_geocode_defaults)"
proof
  assume "py_format py (address reverse_geocode_defaults)
     = py_format py (street_num reverse_geocode_defaults) @ '' ''
         @ py_format py (street reverse_geocode_defaults)"
  then have "length (py_format py (address reverse_geocode_defaults))
     = length (py_format py (street_num reverse_geocode_defaults) @ '' ''
         @ py_format py (street reverse_geocode_defaults))" by simp
  then show False by (simp add: reverse_geocode_defaults_def)
qed

section \<open>The seeded street fields\<close>

text \<open>
  Claim C7, as amended. On a cache miss of \<open>reverse_geocode\<close> the seeded defaults have
  \<open>street_num\<close> set to the sentinel \<open>SMALL\<close> and \<open>street\<close> to \<open>REGULAR\<close> (lines 164
  and 165), so that when the remote call fails with an error that the \<open>except\<close>
  clauses absorb, the record returned has these two sentinels in the two fields.
\<close>

theorem reverse_geocode_failure_defaults:
  assumes miss: "cache_reverse_get (cache s) (format_latlng latlng) = None"
    and fails: "fst (make_request e ''geocode''
                  (Some [(''latlng'', format_latlng latlng), (''language'', language)]) s) = Inl x"
    and absorbed: "except x = None"
  shows "fst (reverse_geocode py e latlng language s) = Inr reverse_geocode_defaults
       \<and> street_num reverse_geocode_defaults = Unknown SMALL
       \<and> street reverse_geocode_defaults = Unknown REGULAR"
proof -
  obtain s1 where "make_request e ''geocode''
      (Some [(''latlng'', format_latlng latlng), (''language'', language)]) s = (Inl x, s1)"
    using fails by (cases "make_request e ''geocode''
      (Some [(''latlng'', format_latlng latlng), (''language'', language)]) s") simp
  then have "reverse_geocode py e latlng language s = (Inr reverse_geocode_defaults, s1)"
    using miss absorbed by (simp add: reverse_geocode_def reverse_geocode_try_def Let_def finish_plain)
  then show ?thesis by (simp add: reverse_geocode_defaults_def)
qed

theorem reverse_geocode_failure_defaults_witness:
  "fst (reverse_geocode python0 (env0 0 (respond 200 body_denied)) (37.422, -122.084) ''en'' gmaps0)
     = Inr reverse_geocode_defaults
   \<and> street_num reverse_geocode_defaults = Unknown SMALL
   \<and> street reverse_geocode_defaults = Unknown REGULAR"
proof -
  have f: "fst (make_request (env0 0 (respond 200 body_denied)) ''geocode''
             (Some [(''latlng'', format_latlng (37.422, -122.084)), (''language'', ''en'')]) gmaps0)
           = Inl (ValueError (''Unexpected response status:'' @ [CHR 0x0A] @ '' '') (Some body_denied))"
    by (simp add: make_request_result respond_facts receive_def classify_def ebind_def subscript_def
        body_denied_def)
  have a: "except (ValueError (''Unexpected response status:'' @ [CHR 0x0A] @ '' '') (Some body_denied)) = None"
    by (simp add: except_absorbs)
  show ?thesis
    by (rule reverse_geocode_failure_defaults [OF gmaps0_misses(2) f a])
qed

text \<open>
  As the claim is stated, the two fields of the seed are the sentinel \<open>EMPTY\<close> and
  render blank after a failure; they are \<open>SMALL\<close> and \<open>REGULAR\<close>, and render as
  \<open>???\<close> and \<open>unknown\<close>.
\<close>

theorem reverse_geocode_seed_counterexample:
  "fst (reverse_geocode python0 (env0 0 (Raises (OtherError ''connection refused''))) (37.422, -122.084)
          ''en'' gmaps0)
     = Inr reverse_geocode_defaults
   \<and> street_num reverse_geocode_defaults \<noteq> Unknown EMPTY
   \<and> street reverse_geocode_defaults \<noteq> Unknown EMPTY
   \<and> street reverse_geocode_defaults = Unknown REGULAR
   \<and> py_format python0 (street_num reverse_geocode_defaults) = ''???''
   \<and> py_format python0 (street reverse_geocode_defaults) = ''unknown''"
proof -
  have f: "fst (make_request (env0 0 (Raises (OtherError ''connection refused''))) ''geocode''
             (Some [(''latlng'', format_latlng (37.422, -122.084)), (''language'', ''en'')]) gmaps0)
           = Inl (OtherError ''connection refused'')"
    by (simp add: make_request_result env0_def)
  have a: "except (OtherError ''connection refused'') = None"
    by (simp add: except_absorbs)
  show ?thesis
    using reverse_geocode_after_failure [OF gmaps0_misses(2) f]
    by (simp add: a reverse_geocode_defaults_def py_format_def python0_def)
qed

text \<open>\<open>EMPTY\<close> is what lines 202 and 203 assign after a successful response that has
  no \<open>street_number\<close> or \<open>route\<close> component.\<close>

lemma populate_unnamed_road:
  assumes "details (JStr ''street_number'') = None" and "details (JStr ''route'') = None"
  shows "street_num (populate py details d) = Unknown EMPTY \<and> street (populate py details d) = Unknown EMPTY"
  using assms by (simp add: populate_def details_get_def Let_def)

end
